theory Spec2Isabelle
  imports Main
begin

section \<open>Go values shared by both packages\<close>

text \<open>
  A Go \<^verbatim>\<open>error\<close> value is either a plain error carrying its message (what
  \<^verbatim>\<open>errors.New\<close>, \<^verbatim>\<open>fmt.Errorf\<close>, the Alidns SDK, the HTTP client and
  \<^verbatim>\<open>encoding/json\<close> produce), or an error tagged by \<^verbatim>\<open>backoff.Permanent\<close>, or
  an error marked by the Retry Operator as the outcome of an exhausted time budget.
  A nil error is \<open>None :: error option\<close>.
\<close>

datatype error =
    ErrorString string
  | PermanentError error
  | TimedOutError error

text \<open>\<^verbatim>\<open>err.Error()\<close>: a wrapper shows the text of the error it wraps.\<close>

fun error_Error :: "error \<Rightarrow> string" where
  "error_Error (ErrorString m) = m"
| "error_Error (PermanentError e) = error_Error e"
| "error_Error (TimedOutError e) = error_Error e"

text \<open>\<^verbatim>\<open>backoff.Permanent(err)\<close> of github.com/cenkalti/backoff.\<close>

definition backoff_Permanent :: "error \<Rightarrow> error" where
  "backoff_Permanent err = PermanentError err"

text \<open>
  \<^verbatim>\<open>fmt.Sprintf\<close> belongs to Go's standard library. The functions below receive it as
  the parameter \<open>Sprintf\<close>: a format string and its operands give the formatted text.
  \<^verbatim>\<open>fmt.Errorf(format, args...)\<close> is the plain error with that text.
\<close>

datatype fmt_arg = ArgString string | ArgInt int | ArgError error

type_synonym sprintf = "string \<Rightarrow> fmt_arg list \<Rightarrow> string"

definition Errorf :: "sprintf \<Rightarrow> string \<Rightarrow> fmt_arg list \<Rightarrow> error" where
  "Errorf Sprintf format args = ErrorString (Sprintf format args)"

text \<open>
  What the wrappers of package dns rely on from \<^verbatim>\<open>fmt.Sprintf\<close>: a format made of a
  text without a percent sign followed by the verb %v, with one error as operand, gives
  the text followed by the operand's \<^verbatim>\<open>Error()\<close>.
\<close>

definition renders_error_operand :: "sprintf \<Rightarrow> bool" where
  "renders_error_operand Sprintf \<longleftrightarrow>
     (\<forall>pre err. CHR ''%'' \<notin> set pre \<longrightarrow>
        Sprintf (pre @ ''%v'') [ArgError err] = pre @ error_Error err)"

text \<open>\<^verbatim>\<open>strings.HasPrefix\<close> and \<^verbatim>\<open>strings.Contains\<close>: byte-wise, case-sensitive.\<close>

fun HasPrefix :: "string \<Rightarrow> string \<Rightarrow> bool" where
  "HasPrefix s [] = True"
| "HasPrefix [] (p # ps) = False"
| "HasPrefix (c # cs) (p # ps) = (c = p \<and> HasPrefix cs ps)"

fun Contains :: "string \<Rightarrow> string \<Rightarrow> bool" where
  "Contains [] substr = HasPrefix [] substr"
| "Contains (c # cs) substr = (HasPrefix (c # cs) substr \<or> Contains cs substr)"


section \<open>Error Classifier\<close>

datatype ErrorClassification = Transient | Permanent

text \<open>
  Modelled from the spec: the Error Classifier \<^verbatim>\<open>classify\<close> (in the repository it is
  \<^verbatim>\<open>alicloud.IsPermanentCommonError\<close>, whose source file is not among the sources).
  Spec 4.1: the text is \<open>Permanent\<close> if it matches a known set of non-retryable
  conditions, by case-sensitive substring search; every other text, the empty one
  included, is \<open>Transient\<close>. The set of conditions is the parameter \<open>vocabulary\<close>.
\<close>

fun classify :: "string list \<Rightarrow> string \<Rightarrow> ErrorClassification" where
  "classify [] errorMessage = Transient"
| "classify (v # vocabulary) errorMessage =
     (if Contains errorMessage v then Permanent else classify vocabulary errorMessage)"

text \<open>
  Modelled from the spec: the part of the permanent-error vocabulary that the spec
  documents (the list itself is in the missing source file). Spec 8.6 names one
  permanent text, the credential error.
\<close>

definition documented_vocabulary :: "string list" where
  "documented_vocabulary = [''missing authentication credentials'']"


section \<open>The Alidns SDK as the DNS package sees it\<close>

text \<open>
  The request and response structs of the SDK (package \<^verbatim>\<open>alidns\<close>), with the fields this
  repository writes or reads. The SDK stores every field behind a pointer; the records
  hold the values pointed to, as a response of the service carries them.
\<close>

record DescribeDomainRecordsRequest =
  DomainName :: string
  PageSize :: int

record DescribeDomainRecordsResponseBodyDomainRecordsRecord =
  DomainName :: string
  RR :: string
  RecordId :: string
  Type :: string
  Value :: string

record DescribeDomainRecordsResponseBodyDomainRecords =
  Record :: "DescribeDomainRecordsResponseBodyDomainRecordsRecord list"

record DescribeDomainRecordsResponseBody =
  DomainRecords :: DescribeDomainRecordsResponseBodyDomainRecords

record DescribeDomainRecordsResponse =
  Body :: DescribeDomainRecordsResponseBody

record AddDomainRecordRequest =
  DomainName :: string
  RR :: string
  Type :: string
  Value :: string

record AddDomainRecordResponseBody =
  RecordId :: string

record AddDomainRecordResponse =
  Body :: AddDomainRecordResponseBody

record UpdateDomainRecordRequest =
  RecordId :: string
  RR :: string
  Type :: string
  Value :: string

record DeleteDomainRecordRequest =
  RecordId :: string

text \<open>
  What the program does to its surroundings: the requests it has sent to the DNS service
  (oldest first), the clock in nanoseconds (the unit of \<^verbatim>\<open>time.Duration\<close>), and the
  messages handed to \<^verbatim>\<open>tflog.Debug\<close>.
\<close>

datatype call =
    CallDescribeDomainRecords DescribeDomainRecordsRequest
  | CallAddDomainRecord AddDomainRecordRequest
  | CallUpdateDomainRecord UpdateDomainRecordRequest
  | CallDeleteDomainRecord DeleteDomainRecordRequest

record world =
  calls :: "call list"
  now :: nat
  logs :: "string list"

text \<open>
  The SDK client \<^verbatim>\<open>*alidns.Client\<close>: for each method, the reply of the service to a
  request (it may depend on everything that happened before) and the time the call
  takes. The responses to an update and to a deletion are never read by the program.
\<close>

record alidns_Client =
  DescribeDomainRecords ::
    "world \<Rightarrow> DescribeDomainRecordsRequest \<Rightarrow> (error + DescribeDomainRecordsResponse) \<times> nat"
  AddDomainRecord ::
    "world \<Rightarrow> AddDomainRecordRequest \<Rightarrow> (error + AddDomainRecordResponse) \<times> nat"
  UpdateDomainRecord ::
    "world \<Rightarrow> UpdateDomainRecordRequest \<Rightarrow> (error + unit) \<times> nat"
  DeleteDomainRecord ::
    "world \<Rightarrow> DeleteDomainRecordRequest \<Rightarrow> (error + unit) \<times> nat"

text \<open>A call of an SDK method: the request is sent, time passes, the reply comes back.\<close>

definition invoke ::
  "(world \<Rightarrow> 'rq \<Rightarrow> (error + 'rs) \<times> nat) \<Rightarrow> ('rq \<Rightarrow> call) \<Rightarrow> 'rq \<Rightarrow> world
     \<Rightarrow> (error + 'rs) \<times> world" where
  "invoke method tag request w =
     (case method w request of
        (reply, duration) \<Rightarrow>
          (reply, w\<lparr>calls := calls w @ [tag request], now := now w + duration\<rparr>))"

text \<open>\<^verbatim>\<open>time.Sleep\<close>.\<close>

definition sleep :: "nat \<Rightarrow> world \<Rightarrow> world" where
  "sleep d w = w\<lparr>now := now w + d\<rparr>"

text \<open>
  A Go closure \<^verbatim>\<open>func() error\<close>: it runs on the variables it captures (\<open>'v\<close>) and
  on the world, and leaves both changed.
\<close>

type_synonym 'v Operation = "'v \<times> world \<Rightarrow> error option \<times> 'v \<times> world"


section \<open>Retry Operator\<close>

text \<open>Whether an error carries the tag of \<^verbatim>\<open>backoff.Permanent\<close>.\<close>

fun tagged_permanent :: "error \<Rightarrow> bool" where
  "tagged_permanent (PermanentError e) = True"
| "tagged_permanent (ErrorString m) = False"
| "tagged_permanent (TimedOutError e) = False"

text \<open>
  Modelled from the spec: the Retry Operator \<^verbatim>\<open>retryOperator(operation, maxElapsed)\<close>
  (in the repository it is \<^verbatim>\<open>backoff_retry.RetryOperator\<close>, whose source file is not
  among the sources). Spec 4.2, in priority order after every attempt: success is
  returned at once; an error tagged Permanent is returned at once; when the time elapsed
  since the first attempt exceeds \<open>maxElapsed\<close> the most recent error is returned,
  wrapped as timed out; otherwise the operator sleeps for the next backoff delay and
  attempts again. The backoff schedule is implementation-chosen (spec 3), jitter
  included, so it is the parameter \<open>delay\<close>: \<open>delay n\<close> is the pause after the failed
  attempt number \<open>n\<close> (counted from 0). \<open>start\<close> is the clock at the first attempt.
  There is no cap on the number of attempts, so the loop need not return.
\<close>

partial_function (option) retry_loop ::
  "(nat \<Rightarrow> nat) \<Rightarrow> 'v Operation \<Rightarrow> nat \<Rightarrow> nat \<Rightarrow> nat \<Rightarrow> 'v \<times> world
     \<Rightarrow> (error option \<times> 'v \<times> world) option" where
  "retry_loop delay operation maxElapsed start n s =
     (case operation s of
        (None, s') \<Rightarrow> Some (None, s')
      | (Some err, v', w') \<Rightarrow>
          if tagged_permanent err then Some (Some err, v', w')
          else if now w' - start > maxElapsed then Some (Some (TimedOutError err), v', w')
          else retry_loop delay operation maxElapsed start (Suc n) (v', sleep (delay n) w'))"

definition retryOperator ::
  "(nat \<Rightarrow> nat) \<Rightarrow> 'v Operation \<Rightarrow> nat \<Rightarrow> 'v \<times> world
     \<Rightarrow> (error option \<times> 'v \<times> world) option" where
  "retryOperator delay operation maxElapsed s =
     retry_loop delay operation maxElapsed (now (snd s)) 0 s"

text \<open>
  The state in which attempt number \<open>k\<close> starts when every earlier attempt failed and
  was followed by its backoff pause, and the outcome of that attempt.
\<close>

fun before_attempt :: "(nat \<Rightarrow> nat) \<Rightarrow> 'v Operation \<Rightarrow> nat \<Rightarrow> 'v \<times> world \<Rightarrow> 'v \<times> world" where
  "before_attempt delay operation 0 s = s"
| "before_attempt delay operation (Suc k) s =
     (case operation (before_attempt delay operation k s) of
        (r, v', w') \<Rightarrow> (v', sleep (delay k) w'))"

definition attempt :: "(nat \<Rightarrow> nat) \<Rightarrow> 'v Operation \<Rightarrow> nat \<Rightarrow> 'v \<times> world \<Rightarrow> error option \<times> 'v \<times> world" where
  "attempt delay operation k s = operation (before_attempt delay operation k s)"

text \<open>Time elapsed since the first attempt when attempt \<open>k\<close> has returned.\<close>

definition elapsed_after :: "(nat \<Rightarrow> nat) \<Rightarrow> 'v Operation \<Rightarrow> nat \<Rightarrow> 'v \<times> world \<Rightarrow> nat" where
  "elapsed_after delay operation k s =
     now (snd (snd (attempt delay operation k s))) - now (snd s)"

text \<open>
  Attempt \<open>k\<close> is retried: it failed, its error is not tagged Permanent, and the time
  budget is not exceeded when it returns.
\<close>

definition retried :: "(nat \<Rightarrow> nat) \<Rightarrow> 'v Operation \<Rightarrow> nat \<Rightarrow> nat \<Rightarrow> 'v \<times> world \<Rightarrow> bool" where
  "retried delay operation maxElapsed k s =
     (case fst (attempt delay operation k s) of
        None \<Rightarrow> False
      | Some err \<Rightarrow> \<not> tagged_permanent err
                    \<and> \<not> elapsed_after delay operation k s > maxElapsed)"

text \<open>
  The terminal states of the operator's state machine (spec 4.2), and the one a caller
  reads off the returned value.
\<close>

datatype RetryState = Succeeded | PermanentlyFailed | TimedOut

fun terminal_state :: "error option \<Rightarrow> RetryState option" where
  "terminal_state None = Some Succeeded"
| "terminal_state (Some (PermanentError e)) = Some PermanentlyFailed"
| "terminal_state (Some (TimedOutError e)) = Some TimedOut"
| "terminal_state (Some (ErrorString m)) = None"

text \<open>
  Attempt \<open>m\<close> ends the retrying with the result \<open>res\<close>: it succeeded, or its error is
  tagged Permanent, or the time budget is exceeded when it returns.
\<close>

definition finished ::
  "(nat \<Rightarrow> nat) \<Rightarrow> 'v Operation \<Rightarrow> nat \<Rightarrow> nat \<Rightarrow> 'v \<times> world
     \<Rightarrow> (error option \<times> 'v \<times> world) \<Rightarrow> bool" where
  "finished delay operation maxElapsed m s res =
     (case fst (attempt delay operation m s) of
        None \<Rightarrow> res = (None, snd (attempt delay operation m s))
      | Some err \<Rightarrow>
          if tagged_permanent err then res = (Some err, snd (attempt delay operation m s))
          else elapsed_after delay operation m s > maxElapsed
               \<and> res = (Some (TimedOutError err), snd (attempt delay operation m s)))"


section \<open>Package dns: client.go\<close>

text \<open>
  \<^verbatim>\<open>openapi.Config\<close> with the fields \<^verbatim>\<open>NewClient\<close> sets; a field that was never set is
  \<open>None\<close>. \<^verbatim>\<open>Alidns\<close> is the struct of dnsrr.go; \<open>'c\<close> is what its field holds.
\<close>

record Config =
  AccessKeyId :: "string option"
  AccessKeySecret :: "string option"
  Endpoint :: "string option"

record 'c Alidns =
  Client :: 'c

text \<open>
  \<^verbatim>\<open>NewClient\<close>. The SDK's constructor \<^verbatim>\<open>alidns.NewClient\<close> is the parameter
  \<open>alidns_NewClient\<close>; it returns a client pointer (of type \<open>'p\<close>) and an error. Beside
  the two results, the model returns the configurations that were handed to the
  constructor, in order.
\<close>

definition NewClient ::
  "sprintf \<Rightarrow> (Config \<Rightarrow> 'p \<times> error option) \<Rightarrow> string \<Rightarrow> string
     \<Rightarrow> ('p Alidns option \<times> error option) \<times> Config list" where
  "NewClient Sprintf alidns_NewClient accessKey secretKey =
     (if accessKey = '''' then
        ((None, Some (Errorf Sprintf ''dns.newClient(): missing access_key'' [])), [])
      else if secretKey = '''' then
        ((None, Some (Errorf Sprintf ''dns.newClient(): missing secret_key'' [])), [])
      else
        let config = \<lparr>AccessKeyId = Some accessKey, AccessKeySecret = Some secretKey,
                        Endpoint = None\<rparr>;
            config = config\<lparr>Endpoint := Some ''alidns.cn-hongkong.aliyuncs.com''\<rparr>
        in case alidns_NewClient config of
             (client, err) \<Rightarrow> ((Some \<lparr>Client = client\<rparr>, err), [config]))"


section \<open>Package dns: dnsrr.go\<close>

text \<open>\<^verbatim>\<open>MAX_ELAPSED_TIME = 10 * time.Minute\<close>, in nanoseconds.\<close>

definition MAX_ELAPSED_TIME :: nat where
  "MAX_ELAPSED_TIME = 10 * (60 * 1000000000)"

text \<open>
  The receiver \<open>a\<close> holds the SDK client. A Go function with results \<^verbatim>\<open>(x, err)\<close>
  returns the pair of both, together with the world it leaves.
\<close>

definition GetAllDnsRecords ::
  "alidns_Client Alidns \<Rightarrow> string \<Rightarrow> world
     \<Rightarrow> (DescribeDomainRecordsResponseBodyDomainRecordsRecord list \<times> error option) \<times> world" where
  "GetAllDnsRecords a domain w =
     (let describeDomainRecordsRequest =
            \<lparr>DescribeDomainRecordsRequest.DomainName = domain, PageSize = 500\<rparr>
      in case invoke (DescribeDomainRecords (Client a)) CallDescribeDomainRecords
                describeDomainRecordsRequest w of
           (Inl err, w') \<Rightarrow> (([], Some err), w')
         | (Inr response, w') \<Rightarrow>
             ((Record (DomainRecords (DescribeDomainRecordsResponse.Body response)), None), w'))"

definition AddDnsRecord ::
  "alidns_Client Alidns \<Rightarrow> string \<Rightarrow> string \<Rightarrow> string \<Rightarrow> string \<Rightarrow> world
     \<Rightarrow> (string \<times> error option) \<times> world" where
  "AddDnsRecord a domain rrType rr val w =
     (let addDomainRecordRequest =
            \<lparr>AddDomainRecordRequest.DomainName = domain, AddDomainRecordRequest.RR = rr,
             AddDomainRecordRequest.Type = rrType, AddDomainRecordRequest.Value = val\<rparr>
      in case invoke (AddDomainRecord (Client a)) CallAddDomainRecord addDomainRecordRequest w of
           (Inl err, w') \<Rightarrow> (('''', Some err), w')
         | (Inr response, w') \<Rightarrow>
             ((AddDomainRecordResponseBody.RecordId (AddDomainRecordResponse.Body response), None),
              w'))"

definition UpdateDnsRecord ::
  "alidns_Client Alidns \<Rightarrow> string \<Rightarrow> string \<Rightarrow> string \<Rightarrow> string \<Rightarrow> world
     \<Rightarrow> error option \<times> world" where
  "UpdateDnsRecord a id' rrType subdomain val w =
     (let updateDomainRecordRequest =
            \<lparr>UpdateDomainRecordRequest.RecordId = id', UpdateDomainRecordRequest.RR = subdomain,
             UpdateDomainRecordRequest.Type = rrType, UpdateDomainRecordRequest.Value = val\<rparr>
      in case invoke (UpdateDomainRecord (Client a)) CallUpdateDomainRecord
                updateDomainRecordRequest w of
           (Inl err, w') \<Rightarrow> (Some err, w')
         | (Inr _, w') \<Rightarrow> (None, w'))"

text \<open>
  The three closures handed to the Retry Operator. \<^verbatim>\<open>alicloud.IsPermanentCommonError\<close>
  (not among the sources) is the parameter \<open>IsPermanentCommonError\<close>.
  \<^verbatim>\<open>deleteDnsRecord\<close> and \<^verbatim>\<open>updateRecord\<close> assign to no captured variable;
  \<^verbatim>\<open>addRecord\<close> assigns to \<^verbatim>\<open>recordId\<close> of the enclosing function.
\<close>

definition deleteDnsRecord ::
  "(string \<Rightarrow> bool) \<Rightarrow> alidns_Client Alidns \<Rightarrow> DeleteDomainRecordRequest \<Rightarrow> 'v Operation" where
  "deleteDnsRecord IsPermanentCommonError a deleteDomainRecordRequest = (\<lambda>(v, w).
     case invoke (DeleteDomainRecord (Client a)) CallDeleteDomainRecord
            deleteDomainRecordRequest w of
       (Inl err, w') \<Rightarrow>
         if IsPermanentCommonError (error_Error err) then (Some (backoff_Permanent err), v, w')
         else (Some err, v, w')
     | (Inr _, w') \<Rightarrow> (None, v, w'))"

definition addRecord ::
  "sprintf \<Rightarrow> (string \<Rightarrow> bool) \<Rightarrow> alidns_Client Alidns \<Rightarrow> string \<Rightarrow> string
     \<Rightarrow> string Operation" where
  "addRecord Sprintf IsPermanentCommonError a commonName token = (\<lambda>(recordId, w).
     case AddDnsRecord a commonName ''TXT'' ''@'' token w of
       ((recordId', Some err), w') \<Rightarrow>
         let w'' = w'\<lparr>logs := logs w' @
                     [Sprintf ''Alidns Add record Error: %s'' [ArgString (error_Error err)]]\<rparr>
         in if IsPermanentCommonError (error_Error err) then (Some (backoff_Permanent err), recordId', w'')
            else (Some err, recordId', w'')
     | ((recordId', None), w') \<Rightarrow> (None, recordId', w'))"

definition updateRecord ::
  "sprintf \<Rightarrow> (string \<Rightarrow> bool) \<Rightarrow> alidns_Client Alidns
     \<Rightarrow> DescribeDomainRecordsResponseBodyDomainRecordsRecord \<Rightarrow> string \<Rightarrow> 'v Operation" where
  "updateRecord Sprintf IsPermanentCommonError a foundDnsRecord token = (\<lambda>(v, w).
     case UpdateDnsRecord a
            (DescribeDomainRecordsResponseBodyDomainRecordsRecord.RecordId foundDnsRecord)
            (DescribeDomainRecordsResponseBodyDomainRecordsRecord.Type foundDnsRecord)
            (DescribeDomainRecordsResponseBodyDomainRecordsRecord.RR foundDnsRecord) token w of
       (Some err, w') \<Rightarrow>
         let w'' = w'\<lparr>logs := logs w' @
                     [Sprintf ''Alidns update record Error: %s'' [ArgString (error_Error err)]]\<rparr>
         in if IsPermanentCommonError (error_Error err) then (Some (backoff_Permanent err), v, w'')
            else (Some err, v, w'')
     | (None, w') \<Rightarrow> (None, v, w'))"

text \<open>
  \<^verbatim>\<open>backoff_retry.RetryOperator\<close> (not among the sources) is the parameter
  \<open>RetryOperator\<close>: it runs a closure from a state and, if it returns, gives the error
  it returns and the state it leaves.
\<close>

type_synonym 'v RetryOperator =
  "'v Operation \<Rightarrow> nat \<Rightarrow> 'v \<times> world \<Rightarrow> (error option \<times> 'v \<times> world) option"

definition DeleteDnsRecord ::
  "sprintf \<Rightarrow> unit RetryOperator \<Rightarrow> (string \<Rightarrow> bool) \<Rightarrow> alidns_Client Alidns \<Rightarrow> string \<Rightarrow> world
     \<Rightarrow> (error option \<times> world) option" where
  "DeleteDnsRecord Sprintf RetryOperator IsPermanentCommonError a id' w =
     (let deleteDomainRecordRequest = \<lparr>DeleteDomainRecordRequest.RecordId = id'\<rparr>
      in case RetryOperator (deleteDnsRecord IsPermanentCommonError a deleteDomainRecordRequest)
                MAX_ELAPSED_TIME ((), w) of
           None \<Rightarrow> None
         | Some (Some err, _, w') \<Rightarrow>
             Some (Some (Errorf Sprintf
                     ''Alidns delete dns record. Failed to Delete dns record: %v''
                     [ArgError err]), w')
         | Some (None, _, w') \<Rightarrow> Some (None, w'))"

text \<open>The search loop of \<^verbatim>\<open>CreateAliDNSRecord\<close>: the first record that matches.\<close>

fun foundDnsRecord ::
  "string \<Rightarrow> DescribeDomainRecordsResponseBodyDomainRecordsRecord list
     \<Rightarrow> DescribeDomainRecordsResponseBodyDomainRecordsRecord option" where
  "foundDnsRecord commonName [] = None"
| "foundDnsRecord commonName (dnsRecord # dnsRecords) =
     (if DescribeDomainRecordsResponseBodyDomainRecordsRecord.DomainName dnsRecord = commonName
         \<and> DescribeDomainRecordsResponseBodyDomainRecordsRecord.RR dnsRecord = ''@''
         \<and> DescribeDomainRecordsResponseBodyDomainRecordsRecord.Type dnsRecord = ''TXT''
      then Some dnsRecord
      else foundDnsRecord commonName dnsRecords)"

text \<open>The test of the search loop on one record.\<close>

definition matches :: "string \<Rightarrow> DescribeDomainRecordsResponseBodyDomainRecordsRecord \<Rightarrow> bool" where
  "matches commonName r \<longleftrightarrow>
     DescribeDomainRecordsResponseBodyDomainRecordsRecord.DomainName r = commonName
     \<and> DescribeDomainRecordsResponseBodyDomainRecordsRecord.RR r = ''@''
     \<and> DescribeDomainRecordsResponseBodyDomainRecordsRecord.Type r = ''TXT''"

definition CreateAliDNSRecord ::
  "sprintf \<Rightarrow> string RetryOperator \<Rightarrow> (string \<Rightarrow> bool) \<Rightarrow> alidns_Client Alidns
     \<Rightarrow> string \<Rightarrow> string \<Rightarrow> world \<Rightarrow> ((string \<times> error option) \<times> world) option" where
  "CreateAliDNSRecord Sprintf RetryOperator IsPermanentCommonError a commonName token w =
     (case GetAllDnsRecords a commonName w of
        ((dnsRecords, Some err), w1) \<Rightarrow> Some (('''', Some err), w1)
      | ((dnsRecords, None), w1) \<Rightarrow>
          if length dnsRecords = 0 then
            Some (('''', Some (Errorf Sprintf ''domain name not found in Alidns'' [])), w1)
          else
            (case foundDnsRecord commonName dnsRecords of
               None \<Rightarrow>
                 (case RetryOperator
                         (addRecord Sprintf IsPermanentCommonError a commonName token)
                         MAX_ELAPSED_TIME ('''', w1) of
                    None \<Rightarrow> None
                  | Some (Some err, _, w2) \<Rightarrow>
                      Some (('''', Some (Errorf Sprintf
                        ''Alidns create dns record. Failed to create verification TXT record: %v''
                        [ArgError err])), w2)
                  | Some (None, recordId, w2) \<Rightarrow> Some ((recordId, None), w2))
             | Some found \<Rightarrow>
                 (case RetryOperator
                         (updateRecord Sprintf IsPermanentCommonError a found token)
                         MAX_ELAPSED_TIME ('''', w1) of
                    None \<Rightarrow> None
                  | Some (Some err, _, w2) \<Rightarrow>
                      Some (('''', Some (Errorf Sprintf
                        ''Alidns update dns record. Failed to Update verification TXT record: %v''
                        [ArgError err])), w2)
                  | Some (None, _, w2) \<Rightarrow>
                      Some ((DescribeDomainRecordsResponseBodyDomainRecordsRecord.RecordId found,
                             None), w2))))"


section \<open>Package digicertapi\<close>

definition ORDER_ENDPOINT :: string where
  "ORDER_ENDPOINT = ''https://www.digicert.com/services/v2/order/certificate''"


text \<open>\<^verbatim>\<open>http.MethodGet\<close>, \<^verbatim>\<open>http.MethodPost\<close>, \<^verbatim>\<open>http.MethodPut\<close>.\<close>

definition MethodGet :: string where "MethodGet = ''GET''"
definition MethodPost :: string where "MethodPost = ''POST''"
definition MethodPut :: string where "MethodPut = ''PUT''"

record Organization =
  ID :: int

record CertificateChain =
  SubjectCommonName :: string
  Pem :: string

record ErrorMsg =
  Code :: string
  Message :: string

record OrderValidityPayload =
  Days :: int

record CertificatePayload =
  ID :: int
  Organization :: Organization
  CommonName :: string
  DNSNames :: "string list"
  CSR :: string
  SignatureHash :: string
  CACertID :: string
  CertificateChain :: "CertificateChain list"
  Error :: "ErrorMsg list"
  PrivateKey :: string

record OrderPayload =
  Certificate :: CertificatePayload
  Organization :: Organization
  OrderValidity :: OrderValidityPayload
  PaymentMethod :: string
  RenewalOfOrderID :: int
  DcvMethod :: string

record DcvToken =
  Token :: string
  Status :: string

record DomainRespBody =
  ID :: int
  Name :: string
  DcvToken :: DcvToken

record IssueCertRespBody =
  OrderID :: int
  CertificateID :: int
  CertificateChain :: "CertificateChain list"
  Domains :: "DomainRespBody list"
  SubjectCommonName :: string
  OrderValidTill :: string
  DcvRandomValue :: string
  PrivateKey :: string
  CertificateValidTill :: string
  OrderValidTillDay :: int
  ErrorMsg :: "ErrorMsg list"

record Certificate =
  ID :: int
  Status :: string
  CommonName :: string
  ValidTill :: string
  CertificateChain :: "CertificateChain list"
  Organization :: Organization
  CSR :: string
  PrivateKey :: string
  CertificatePem :: string
  IssuerPem :: string
  RootPem :: string

record OrderRespBody =
  ID :: int
  Certificate :: Certificate
  Status :: string
  OrderValidTill :: string
  IsRenewed :: bool
  ErrorMsg :: "ErrorMsg list"

record OrderListRespBody =
  Orders :: "OrderRespBody list"
  ErrorMsg :: "ErrorMsg list"

record ErrorMsgList =
  ErrorMsg :: "ErrorMsg list"

text \<open>The zero values of the structs that a function declares and then fills.\<close>

definition zero_IssueCertRespBody :: IssueCertRespBody where
  "zero_IssueCertRespBody =
     \<lparr>OrderID = 0, CertificateID = 0, IssueCertRespBody.CertificateChain = [], Domains = [],
      IssueCertRespBody.SubjectCommonName = '''', IssueCertRespBody.OrderValidTill = '''',
      DcvRandomValue = '''', IssueCertRespBody.PrivateKey = '''', CertificateValidTill = '''',
      OrderValidTillDay = 0, IssueCertRespBody.ErrorMsg = []\<rparr>"

definition zero_OrderListRespBody :: OrderListRespBody where
  "zero_OrderListRespBody = \<lparr>Orders = [], OrderListRespBody.ErrorMsg = []\<rparr>"


text \<open>
  The receiver \<^verbatim>\<open>*Client\<close>. Its method \<^verbatim>\<open>httpResponse(method, url, payload)\<close> is not
  among the sources; the record holds what it returns, the response body and an error.
  A byte slice is a string, the nil slice the empty one.
\<close>

record digicertapi_Client =
  httpResponse :: "string \<Rightarrow> string \<Rightarrow> string \<Rightarrow> string \<times> error option"

text \<open>
  \<^verbatim>\<open>json.Marshal\<close> and \<^verbatim>\<open>json.Unmarshal\<close> of the standard library are parameters.
  \<open>Unmarshal data v\<close> gives the struct that decoding \<open>data\<close> into \<open>v\<close> leaves, and the
  error of the call.
\<close>

type_synonym 'a unmarshal = "string \<Rightarrow> 'a \<Rightarrow> 'a \<times> error option"

definition IssueCert ::
  "sprintf \<Rightarrow> (OrderPayload \<Rightarrow> string \<times> error option) \<Rightarrow> IssueCertRespBody unmarshal
     \<Rightarrow> digicertapi_Client \<Rightarrow> OrderPayload \<Rightarrow> IssueCertRespBody \<times> error option" where
  "IssueCert Sprintf Marshal Unmarshal c orderPayLoad =
     (let issueCert = zero_IssueCertRespBody;
          url = Sprintf ''%s/%s''
                  [ArgString ORDER_ENDPOINT,
                   ArgString (CACertID (OrderPayload.Certificate orderPayLoad))]
      in case Marshal orderPayLoad of
           (jsonPayload, Some err) \<Rightarrow> (issueCert, Some err)
         | (jsonPayload, None) \<Rightarrow>
             (case httpResponse c MethodPost url jsonPayload of
                (resp, Some err) \<Rightarrow> (issueCert, Some err)
              | (resp, None) \<Rightarrow>
                  (case Unmarshal resp issueCert of
                     (issueCert, Some err) \<Rightarrow> (issueCert, Some err)
                   | (issueCert, None) \<Rightarrow>
                       if length (IssueCertRespBody.ErrorMsg issueCert) \<noteq> 0 then
                         (issueCert,
                          Some (Errorf Sprintf ''error issue certificate, error: %s''
                            [ArgString (Sprintf ''%s. %s''
                               [ArgString (Code (IssueCertRespBody.ErrorMsg issueCert ! 0)),
                                ArgString (Message (IssueCertRespBody.ErrorMsg issueCert ! 0))])]))
                       else (issueCert, None))))"





text \<open>
  \<^verbatim>\<open>GetOrders\<close>: the loop over the decoded errors returns in its first iteration, with
  \<^verbatim>\<open>errors.New\<close> of the first message and the still empty result \<^verbatim>\<open>orders\<close>.
\<close>

definition GetOrders ::
  "sprintf \<Rightarrow> OrderListRespBody unmarshal \<Rightarrow> digicertapi_Client \<Rightarrow> string
     \<Rightarrow> OrderListRespBody \<times> error option" where
  "GetOrders Sprintf Unmarshal c commonName =
     (let orders = zero_OrderListRespBody;
          url = Sprintf ''%s?filters[status]=issued&sort=-date_created&filters[common_name]=%s''
                  [ArgString ORDER_ENDPOINT, ArgString commonName]
      in case httpResponse c MethodGet url [] of
           (resp, Some err) \<Rightarrow> (orders, Some err)
         | (resp, None) \<Rightarrow>
             (case Unmarshal resp zero_OrderListRespBody of
                (orderList, Some err) \<Rightarrow> (orders, Some err)
              | (orderList, None) \<Rightarrow>
                  (case OrderListRespBody.ErrorMsg orderList of
                     errormsg # _ \<Rightarrow> (orders, Some (ErrorString (Message errormsg)))
                   | [] \<Rightarrow> (orderList, None))))"

text \<open>
  \<^verbatim>\<open>GetOrdersList\<close>: the loop over the decoded errors prints one line per error with
  \<^verbatim>\<open>log.Println\<close> (a boolean, printed as true or false) and returns nothing. Beside the
  two results, the model returns the lines printed.
\<close>

definition GetOrdersList ::
  "sprintf \<Rightarrow> OrderListRespBody unmarshal \<Rightarrow> digicertapi_Client
     \<Rightarrow> (OrderListRespBody \<times> error option) \<times> string list" where
  "GetOrdersList Sprintf Unmarshal c =
     (let orders = zero_OrderListRespBody;
          url = Sprintf ''%s?filters[status]=issued'' [ArgString ORDER_ENDPOINT]
      in case httpResponse c MethodGet url [] of
           (resp, Some err) \<Rightarrow> ((orders, Some err), [])
         | (resp, None) \<Rightarrow>
             (case Unmarshal resp orders of
                (orders, Some err) \<Rightarrow> ((orders, Some err), [])
              | (orders, None) \<Rightarrow>
                  ((orders, None),
                   map (\<lambda>errormsg. if Contains (Code errormsg) ''Missing authentication''
                                    then ''true'' else ''false'')
                     (OrderListRespBody.ErrorMsg orders))))"

text \<open>The request body of \<^verbatim>\<open>CancelOrderRequest\<close>: the raw string literal of the source.\<close>

definition canceled_payload :: string where
  "canceled_payload =
     ''{'' @ [CHR 0x0A, CHR 0x09, CHR 0x09, CHR 0x22] @ ''status'' @ [CHR 0x22] @ '': ''
       @ [CHR 0x22] @ ''canceled'' @ [CHR 0x22] @ '','' @ [CHR 0x0A, CHR 0x09, CHR 0x09, CHR 0x22]
       @ ''note'' @ [CHR 0x22] @ '': '' @ [CHR 0x22] @ ''Fail validate domain.'' @ [CHR 0x22]
       @ [CHR 0x0A, CHR 0x09] @ ''}''"

text \<open>
  \<^verbatim>\<open>CancelOrderRequest\<close>: when the response is not empty the function returns the
  variable \<^verbatim>\<open>err\<close>, which holds the error of the HTTP call.
\<close>

definition CancelOrderRequest :: "sprintf \<Rightarrow> digicertapi_Client \<Rightarrow> int \<Rightarrow> error option" where
  "CancelOrderRequest Sprintf c orderId =
     (let url = Sprintf ''%s/%d/status'' [ArgString ORDER_ENDPOINT, ArgInt orderId];
          payloadJson = canceled_payload
      in case httpResponse c MethodPut url payloadJson of
           (ordStatusResp, err) \<Rightarrow>
             if err \<noteq> None then err
             else if length ordStatusResp \<noteq> 0 then err
             else None)"


section \<open>Concrete surroundings for the examples\<close>

text \<open>A formatter that returns the format string and ignores the operands.\<close>

definition Sprintf_format_only :: sprintf where
  "Sprintf_format_only format args = format"

text \<open>
  A formatter that replaces each verb %v, %s and %d by the text of the next operand: a
  string as it is, an error by its \<^verbatim>\<open>Error()\<close>, an integer in decimal.
\<close>

fun decimal :: "nat \<Rightarrow> string" where
  "decimal n =
     (if n < 10 then [''0123456789'' ! n]
      else decimal (n div 10) @ [''0123456789'' ! (n mod 10)])"

fun operand_text :: "fmt_arg \<Rightarrow> string" where
  "operand_text (ArgString s) = s"
| "operand_text (ArgError err) = error_Error err"
| "operand_text (ArgInt i) = (if i < 0 then CHR ''-'' # decimal (nat (- i)) else decimal (nat i))"

fun Sprintf_verbs :: sprintf where
  "Sprintf_verbs [] args = []"
| "Sprintf_verbs (c # cs) args =
     (if c = CHR ''%'' then
        (case (cs, args) of
           (d # ds, x # xs) \<Rightarrow>
             if d = CHR ''v'' \<or> d = CHR ''s'' \<or> d = CHR ''d''
             then operand_text x @ Sprintf_verbs ds xs
             else c # Sprintf_verbs cs args
         | _ \<Rightarrow> c # Sprintf_verbs cs args)
      else c # Sprintf_verbs cs args)"

text \<open>A classifier whose vocabulary is the single code \<open>Forbidden\<close>.\<close>

definition permanent_if_forbidden :: "string \<Rightarrow> bool" where
  "permanent_if_forbidden m \<longleftrightarrow> classify [''Forbidden''] m = Permanent"

text \<open>The world before anything happened.\<close>

definition origin :: world where
  "origin = \<lparr>calls = [], now = 0, logs = []\<rparr>"

text \<open>
  A DNS service that pages its answers: a request for the records of a zone receives
  the first \<^verbatim>\<open>PageSize\<close> records of the zone.
\<close>

definition first_page ::
  "DescribeDomainRecordsResponseBodyDomainRecordsRecord list \<Rightarrow> DescribeDomainRecordsRequest
     \<Rightarrow> DescribeDomainRecordsResponse" where
  "first_page zone request =
     \<lparr>DescribeDomainRecordsResponse.Body =
        \<lparr>DomainRecords = \<lparr>Record = take (nat (PageSize request)) zone\<rparr>\<rparr>\<rparr>"

text \<open>
  A client of that service. Every call takes one nanosecond; an addition, an update and
  a deletion all receive \<open>reply\<close>, and a successful addition creates the record
  \<open>created\<close>.
\<close>

definition zone_Client ::
  "DescribeDomainRecordsResponseBodyDomainRecordsRecord list \<Rightarrow> (error + unit) \<Rightarrow> alidns_Client" where
  "zone_Client zone reply =
     \<lparr>DescribeDomainRecords = (\<lambda>w request. (Inr (first_page zone request), 1)),
      AddDomainRecord = (\<lambda>w request.
        (case reply of
           Inl err \<Rightarrow> Inl err
         | Inr _ \<Rightarrow> Inr \<lparr>AddDomainRecordResponse.Body =
                          \<lparr>AddDomainRecordResponseBody.RecordId = ''created''\<rparr>\<rparr>, 1)),
      UpdateDomainRecord = (\<lambda>w request. (reply, 1)),
      DeleteDomainRecord = (\<lambda>w request. (reply, 1))\<rparr>"

definition record_of :: "string \<Rightarrow> string \<Rightarrow> string \<Rightarrow> string
    \<Rightarrow> DescribeDomainRecordsResponseBodyDomainRecordsRecord" where
  "record_of name rr type ident =
     \<lparr>DescribeDomainRecordsResponseBodyDomainRecordsRecord.DomainName = name,
      DescribeDomainRecordsResponseBodyDomainRecordsRecord.RR = rr,
      DescribeDomainRecordsResponseBodyDomainRecordsRecord.RecordId = ident,
      DescribeDomainRecordsResponseBodyDomainRecordsRecord.Type = type,
      DescribeDomainRecordsResponseBodyDomainRecordsRecord.Value = ''old''\<rparr>"

text \<open>
  An operation that fails with a plain error until its counter reaches \<open>k\<close> and then
  ends with \<open>final\<close>; every attempt takes \<open>cost\<close> nanoseconds.
\<close>

definition flaky :: "nat \<Rightarrow> error option \<Rightarrow> nat \<Rightarrow> nat Operation" where
  "flaky k final cost = (\<lambda>(v, w).
     (if v < k then Some (ErrorString ''busy'') else final, Suc v, w\<lparr>now := now w + cost\<rparr>))"

text \<open>
  A DigiCert endpoint that answers every request with the body \<open>body\<close>, and a decoder
  that finds the list \<open>errs\<close> under the key \<^verbatim>\<open>errors\<close>.
\<close>

definition answering :: "string \<Rightarrow> digicertapi_Client" where
  "answering body = \<lparr>httpResponse = (\<lambda>method url payload. (body, None))\<rparr>"

definition access_denied :: ErrorMsg where
  "access_denied = \<lparr>Code = ''access_denied'', Message = ''Missing authentication''\<rparr>"


definition decode_OrderListRespBody :: "ErrorMsg list \<Rightarrow> OrderListRespBody unmarshal" where
  "decode_OrderListRespBody errs data v = (v\<lparr>OrderListRespBody.ErrorMsg := errs\<rparr>, None)"

definition decode_IssueCertRespBody :: "ErrorMsg list \<Rightarrow> IssueCertRespBody unmarshal" where
  "decode_IssueCertRespBody errs data v = (v\<lparr>IssueCertRespBody.ErrorMsg := errs\<rparr>, None)"

text \<open>
  The body of an error response: the JSON object whose key \<^verbatim>\<open>errors\<close> holds one entry
  with the code and the message of \<open>access_denied\<close>.
\<close>

definition errors_body :: string where
  "errors_body =
     ''{'' @ [CHR 0x22] @ ''errors'' @ [CHR 0x22] @ '':[{'' @ [CHR 0x22] @ ''code'' @ [CHR 0x22]
       @ '':'' @ [CHR 0x22] @ ''access_denied'' @ [CHR 0x22] @ '','' @ [CHR 0x22] @ ''message''
       @ [CHR 0x22] @ '':'' @ [CHR 0x22] @ ''Missing authentication'' @ [CHR 0x22] @ ''}]}''"


section \<open>The Error Classifier is a substring search\<close>

lemma HasPrefix_iff: "HasPrefix s p \<longleftrightarrow> (\<exists>post. s = p @ post)"
  by (induction s p rule: HasPrefix.induct) auto

lemma Contains_iff: "Contains s substr \<longleftrightarrow> (\<exists>pre post. s = pre @ substr @ post)"
proof (induction s)
  case Nil
  show ?case by (cases substr) auto
next
  case (Cons c cs)
  have "(\<exists>pre post. c # cs = pre @ substr @ post)
          \<longleftrightarrow> (\<exists>post. c # cs = substr @ post) \<or> (\<exists>pre post. cs = pre @ substr @ post)"
    (is "?L \<longleftrightarrow> ?P \<or> ?R")
  proof
    assume ?L
    then obtain pre post where eq: "c # cs = pre @ substr @ post" by blast
    show "?P \<or> ?R"
    proof (cases pre)
      case Nil
      with eq show ?thesis by auto
    next
      case (Cons a pre')
      with eq have "cs = pre' @ substr @ post" by simp
      then show ?thesis by blast
    qed
  next
    assume "?P \<or> ?R"
    then show ?L
    proof
      assume ?P
      then obtain post where "c # cs = [] @ substr @ post" by auto
      then show ?L by blast
    next
      assume ?R
      then obtain pre post where "cs = pre @ substr @ post" by blast
      then have "c # cs = (c # pre) @ substr @ post" by simp
      then show ?L by blast
    qed
  qed
  with Cons show ?case by (simp add: HasPrefix_iff)
qed

lemma classify_Permanent_iff:
  "classify vocabulary s = Permanent \<longleftrightarrow> (\<exists>v\<in>set vocabulary. Contains s v)"
  by (induction vocabulary) auto

lemma classify_Transient_iff:
  "classify vocabulary s = Transient \<longleftrightarrow> \<not> (\<exists>v\<in>set vocabulary. Contains s v)"
  by (induction vocabulary) auto

text \<open>
  C6. For every vocabulary and every text, \<open>classify\<close> returns \<open>Permanent\<close> exactly when
  some entry of the vocabulary occurs in the text as a substring, compared byte by byte,
  and \<open>Transient\<close> for every other text; it is a total function. With a vocabulary that
  has no empty entry the empty text is \<open>Transient\<close>. On the vocabulary the spec documents,
  the text "missing authentication credentials" is \<open>Permanent\<close>, and "service temporarily
  unavailable", the empty text and the same credential text with a capital M are
  \<open>Transient\<close>.
\<close>

theorem classify_matches_vocabulary:
  "(classify vocabulary s = Permanent
      \<longleftrightarrow> (\<exists>v\<in>set vocabulary. \<exists>pre post. s = pre @ v @ post))
   \<and> (classify vocabulary s = Transient
      \<longleftrightarrow> \<not> (\<exists>v\<in>set vocabulary. \<exists>pre post. s = pre @ v @ post))
   \<and> ([] \<notin> set vocabulary \<longrightarrow> classify vocabulary [] = Transient)
   \<and> classify documented_vocabulary ''missing authentication credentials'' = Permanent
   \<and> classify documented_vocabulary ''service temporarily unavailable'' = Transient
   \<and> classify documented_vocabulary ''Missing authentication credentials'' = Transient
   \<and> classify documented_vocabulary [] = Transient"
proof -
  have nil: "[] \<notin> set vocabulary \<Longrightarrow> classify vocabulary [] = Transient"
    by (auto simp: classify_Transient_iff Contains_iff)
  have "classify documented_vocabulary ''missing authentication credentials'' = Permanent"
    and "classify documented_vocabulary ''service temporarily unavailable'' = Transient"
    and "classify documented_vocabulary ''Missing authentication credentials'' = Transient"
    and "classify documented_vocabulary [] = Transient"
    by (simp_all add: documented_vocabulary_def)
  with nil show ?thesis
    by (simp add: classify_Permanent_iff classify_Transient_iff Contains_iff)
qed

theorem classify_matches_vocabulary_witness:
  "(\<exists>v\<in>set [''InvalidAccessKeyId'', ''Forbidden''].
       \<exists>pre post. ''code: Forbidden.RAM'' = pre @ v @ post)
   \<and> classify [''InvalidAccessKeyId'', ''Forbidden''] ''code: Forbidden.RAM'' = Permanent
   \<and> [] \<notin> set [''InvalidAccessKeyId'', ''Forbidden'']
   \<and> classify [''InvalidAccessKeyId'', ''Forbidden''] [] = Transient"
proof -
  have "classify [''InvalidAccessKeyId'', ''Forbidden''] ''code: Forbidden.RAM'' = Permanent"
    by simp
  with classify_matches_vocabulary
         [of "[''InvalidAccessKeyId'', ''Forbidden'']" "''code: Forbidden.RAM''"]
  show ?thesis by simp
qed


section \<open>The Retry Operator stops at the first terminal attempt\<close>

lemma retry_loop_step:
  assumes "retried delay operation maxElapsed k s"
  shows "retry_loop delay operation maxElapsed (now (snd s)) k (before_attempt delay operation k s)
         = retry_loop delay operation maxElapsed (now (snd s)) (Suc k)
             (before_attempt delay operation (Suc k) s)"
proof -
  obtain r v' w' where op: "operation (before_attempt delay operation k s) = (r, v', w')"
    by (cases "operation (before_attempt delay operation k s)") auto
  with assms obtain err where r: "r = Some err" and np: "\<not> tagged_permanent err"
    and el: "\<not> now w' - now (snd s) > maxElapsed"
    by (auto simp: retried_def attempt_def elapsed_after_def split: option.splits)
  show ?thesis
    by (subst retry_loop.simps) (simp add: op r np el)
qed

lemma retry_loop_skip:
  "(\<forall>k<n. retried delay operation maxElapsed k s) \<Longrightarrow>
   retryOperator delay operation maxElapsed s
   = retry_loop delay operation maxElapsed (now (snd s)) n (before_attempt delay operation n s)"
proof (induction n)
  case 0
  show ?case by (simp add: retryOperator_def)
next
  case (Suc n)
  then have "retryOperator delay operation maxElapsed s
    = retry_loop delay operation maxElapsed (now (snd s)) n (before_attempt delay operation n s)"
    by simp
  also have "\<dots> = retry_loop delay operation maxElapsed (now (snd s)) (Suc n)
             (before_attempt delay operation (Suc n) s)"
    using Suc.prems by (intro retry_loop_step) simp
  finally show ?case .
qed

lemma retry_loop_finished:
  "finished delay operation maxElapsed n s res \<Longrightarrow>
   retry_loop delay operation maxElapsed (now (snd s)) n (before_attempt delay operation n s)
   = Some res"
  by (subst retry_loop.simps)
     (auto simp: finished_def attempt_def elapsed_after_def
           split: prod.splits option.splits if_splits)

lemma retryOperator_finished:
  "(\<forall>k<n. retried delay operation maxElapsed k s) \<Longrightarrow>
   finished delay operation maxElapsed n s res \<Longrightarrow>
   retryOperator delay operation maxElapsed s = Some res"
  by (simp add: retry_loop_skip retry_loop_finished)

lemma finished_not_retried:
  "finished delay operation maxElapsed m s res \<Longrightarrow> \<not> retried delay operation maxElapsed m s"
  by (auto simp: finished_def retried_def split: option.splits if_splits)

lemma not_retried_finished:
  assumes "\<not> retried delay operation maxElapsed m s"
  shows "\<exists>res. finished delay operation maxElapsed m s res"
proof (cases "fst (attempt delay operation m s)")
  case None
  then have "finished delay operation maxElapsed m s (None, snd (attempt delay operation m s))"
    by (simp add: finished_def)
  then show ?thesis ..
next
  case (Some err)
  show ?thesis
  proof (cases "tagged_permanent err")
    case True
    with Some have
      "finished delay operation maxElapsed m s (Some err, snd (attempt delay operation m s))"
      by (simp add: finished_def)
    then show ?thesis ..
  next
    case False
    with Some assms have "maxElapsed < elapsed_after delay operation m s"
      by (simp add: retried_def)
    with Some False have
      "finished delay operation maxElapsed m s
         (Some (TimedOutError err), snd (attempt delay operation m s))"
      by (simp add: finished_def)
    then show ?thesis ..
  qed
qed

lemma retry_loop_returns:
  assumes ret: "retry_loop delay operation maxElapsed start n s' = Some res"
  shows "\<forall>s. s' = before_attempt delay operation n s \<and> start = now (snd s) \<longrightarrow>
           (\<exists>m\<ge>n. (\<forall>k. n \<le> k \<and> k < m \<longrightarrow> retried delay operation maxElapsed k s)
                 \<and> finished delay operation maxElapsed m s res)"
proof (rule retry_loop.raw_induct
    [where P = "\<lambda>delay operation maxElapsed start n s' res.
        \<forall>s. s' = before_attempt delay operation n s \<and> start = now (snd s) \<longrightarrow>
           (\<exists>m\<ge>n. (\<forall>k. n \<le> k \<and> k < m \<longrightarrow> retried delay operation maxElapsed k s)
                 \<and> finished delay operation maxElapsed m s res)", OF _ ret])
  fix loop :: "(nat \<Rightarrow> nat) \<Rightarrow> 'a Operation \<Rightarrow> nat \<Rightarrow> nat \<Rightarrow> nat \<Rightarrow> 'a \<times> world
     \<Rightarrow> (error option \<times> 'a \<times> world) option"
  fix delay operation maxElapsed start n s' res
  assume IH: "\<And>delay operation maxElapsed start n s' res.
        loop delay operation maxElapsed start n s' = Some res \<Longrightarrow>
        \<forall>s. s' = before_attempt delay operation n s \<and> start = now (snd s) \<longrightarrow>
           (\<exists>m\<ge>n. (\<forall>k. n \<le> k \<and> k < m \<longrightarrow> retried delay operation maxElapsed k s)
                 \<and> finished delay operation maxElapsed m s res)"
  assume body: "(case operation s' of (None, s') \<Rightarrow> Some (None, s')
      | (Some err, v', w') \<Rightarrow>
          if tagged_permanent err then Some (Some err, v', w')
          else if maxElapsed < now w' - start
               then Some (Some (TimedOutError err), v', w')
               else loop delay operation maxElapsed start (Suc n)
                     (v', sleep (delay n) w')) = Some res"
  show "\<forall>s. s' = before_attempt delay operation n s \<and> start = now (snd s) \<longrightarrow>
           (\<exists>m\<ge>n. (\<forall>k. n \<le> k \<and> k < m \<longrightarrow> retried delay operation maxElapsed k s)
                 \<and> finished delay operation maxElapsed m s res)"
  proof (intro allI impI, elim conjE)
    fix s
    assume s': "s' = before_attempt delay operation n s" and start: "start = now (snd s)"
    obtain r v' w' where op: "operation s' = (r, v', w')"
      by (cases "operation s'") auto
    have att: "attempt delay operation n s = (r, v', w')"
      by (simp add: attempt_def s'[symmetric] op)
    show "\<exists>m\<ge>n. (\<forall>k. n \<le> k \<and> k < m \<longrightarrow> retried delay operation maxElapsed k s)
                 \<and> finished delay operation maxElapsed m s res"
    proof (cases "retried delay operation maxElapsed n s")
      case False
      with body have "finished delay operation maxElapsed n s res"
        by (auto simp: finished_def retried_def att op elapsed_after_def start
                 split: option.splits if_splits)
      then show ?thesis by (intro exI[of _ n]) auto
    next
      case True
      then obtain err where r: "r = Some err" and np: "\<not> tagged_permanent err"
        and el: "\<not> maxElapsed < now w' - start"
        by (auto simp: retried_def att elapsed_after_def start split: option.splits)
      from body have rec:
        "loop delay operation maxElapsed start (Suc n) (v', sleep (delay n) w') = Some res"
        by (simp add: op r np el)
      have nxt: "(v', sleep (delay n) w') = before_attempt delay operation (Suc n) s"
        by (simp add: s'[symmetric] op)
      from IH[OF rec] nxt start
      obtain m where m: "m \<ge> Suc n"
        "\<forall>k. Suc n \<le> k \<and> k < m \<longrightarrow> retried delay operation maxElapsed k s"
        "finished delay operation maxElapsed m s res"
        by blast
      have "\<forall>k. n \<le> k \<and> k < m \<longrightarrow> retried delay operation maxElapsed k s"
        using m(2) True by (metis Suc_leI le_neq_implies_less)
      with m(1,3) show ?thesis by (intro exI[of _ m]) auto
    qed
  qed
qed

lemma retryOperator_returns:
  assumes "retryOperator delay operation maxElapsed s = Some res"
  shows "\<exists>m. (\<forall>k<m. retried delay operation maxElapsed k s)
             \<and> finished delay operation maxElapsed m s res"
proof -
  from assms have "retry_loop delay operation maxElapsed (now (snd s)) 0 s = Some res"
    by (simp add: retryOperator_def)
  from retry_loop_returns [OF this, THEN spec, of s] show ?thesis by simp
qed

lemma clock_before_attempt:
  assumes mono: "\<forall>x. now (snd x) \<le> now (snd (snd (operation x)))"
    and pos: "\<forall>n. 0 < delay n"
  shows "now (snd s) + n \<le> now (snd (before_attempt delay operation n s))"
proof (induction n)
  case 0
  show ?case by simp
next
  case (Suc n)
  obtain r v' w' where op: "operation (before_attempt delay operation n s) = (r, v', w')"
    by (cases "operation (before_attempt delay operation n s)") auto
  from mono have "now (snd (before_attempt delay operation n s))
                    \<le> now (snd (snd (operation (before_attempt delay operation n s))))"
    by blast
  then have "now (snd (before_attempt delay operation n s)) \<le> now w'" by (simp add: op)
  moreover from pos have "0 < delay n" by blast
  ultimately show ?case using Suc by (simp add: op sleep_def)
qed

lemma retried_bounded:
  assumes mono: "\<forall>x. now (snd x) \<le> now (snd (snd (operation x)))"
    and pos: "\<forall>n. 0 < delay n"
  shows "\<not> retried delay operation maxElapsed (Suc maxElapsed) s"
proof -
  let ?b = "before_attempt delay operation (Suc maxElapsed) s"
  have "now (snd s) + Suc maxElapsed \<le> now (snd ?b)"
    by (rule clock_before_attempt [OF mono pos])
  moreover from mono have "now (snd ?b) \<le> now (snd (snd (operation ?b)))" by blast
  ultimately have "maxElapsed < elapsed_after delay operation (Suc maxElapsed) s"
    by (simp add: elapsed_after_def attempt_def)
  then show ?thesis by (simp add: retried_def split: option.splits)
qed

lemma retryOperator_total:
  assumes mono: "\<forall>x. now (snd x) \<le> now (snd (snd (operation x)))"
    and pos: "\<forall>n. 0 < delay n"
  shows "\<exists>m res. (\<forall>k<m. retried delay operation maxElapsed k s)
            \<and> finished delay operation maxElapsed m s res
            \<and> retryOperator delay operation maxElapsed s = Some res"
proof -
  define m where "m = (LEAST k. \<not> retried delay operation maxElapsed k s)"
  have ex: "\<not> retried delay operation maxElapsed (Suc maxElapsed) s"
    by (rule retried_bounded [OF mono pos])
  then have stop: "\<not> retried delay operation maxElapsed m s"
    unfolding m_def by (rule LeastI)
  have before: "\<forall>k<m. retried delay operation maxElapsed k s"
    unfolding m_def using not_less_Least by blast
  from stop obtain res where "finished delay operation maxElapsed m s res"
    using not_retried_finished by blast
  with before show ?thesis
    using retryOperator_finished by blast
qed

text \<open>
  C1. Let every attempt before attempt \<open>n\<close> fail with an untagged error within the time
  budget, so that the operator paused after each and tried again. If attempt \<open>n\<close>
  succeeds, the operator returns success and the state that attempt left: no pause and
  no attempt follows. If the error of attempt \<open>n\<close> is tagged Permanent, the operator
  returns that error and the state that attempt left. If attempt \<open>n\<close> fails untagged and
  the time elapsed since the first attempt exceeds \<open>maxElapsed\<close>, the operator returns
  the error of that attempt, the most recent one, marked as timed out. Otherwise the
  operator sleeps for the backoff delay, attempt \<open>n + 1\<close> starts in the state after that
  pause, and whatever the operator returns is decided by a later attempt.
\<close>

theorem retryOperator_stops_at_first_terminal_attempt:
  assumes "\<forall>k<n. retried delay operation maxElapsed k s"
  shows "(fst (attempt delay operation n s) = None \<longrightarrow>
            retryOperator delay operation maxElapsed s
            = Some (None, snd (attempt delay operation n s)))
       \<and> (\<forall>err. fst (attempt delay operation n s) = Some err \<and> tagged_permanent err \<longrightarrow>
            retryOperator delay operation maxElapsed s
            = Some (Some err, snd (attempt delay operation n s)))
       \<and> (\<forall>err. fst (attempt delay operation n s) = Some err \<and> \<not> tagged_permanent err
              \<and> maxElapsed < elapsed_after delay operation n s \<longrightarrow>
            retryOperator delay operation maxElapsed s
            = Some (Some (TimedOutError err), snd (attempt delay operation n s)))
       \<and> (retried delay operation maxElapsed n s \<longrightarrow>
            before_attempt delay operation (Suc n) s
            = (fst (snd (attempt delay operation n s)),
               sleep (delay n) (snd (snd (attempt delay operation n s))))
            \<and> (\<forall>res. retryOperator delay operation maxElapsed s = Some res \<longrightarrow>
                 (\<exists>m>n. (\<forall>k<m. retried delay operation maxElapsed k s)
                       \<and> finished delay operation maxElapsed m s res)))"
proof -
  have a: "fst (attempt delay operation n s) = None \<Longrightarrow>
            retryOperator delay operation maxElapsed s
            = Some (None, snd (attempt delay operation n s))"
    by (rule retryOperator_finished [OF assms]) (simp add: finished_def)
  have b: "\<And>err. fst (attempt delay operation n s) = Some err \<Longrightarrow> tagged_permanent err \<Longrightarrow>
            retryOperator delay operation maxElapsed s
            = Some (Some err, snd (attempt delay operation n s))"
    by (rule retryOperator_finished [OF assms]) (simp add: finished_def)
  have c: "\<And>err. fst (attempt delay operation n s) = Some err \<Longrightarrow> \<not> tagged_permanent err \<Longrightarrow>
            maxElapsed < elapsed_after delay operation n s \<Longrightarrow>
            retryOperator delay operation maxElapsed s
            = Some (Some (TimedOutError err), snd (attempt delay operation n s))"
    by (rule retryOperator_finished [OF assms]) (simp add: finished_def)
  have d1: "before_attempt delay operation (Suc n) s
            = (fst (snd (attempt delay operation n s)),
               sleep (delay n) (snd (snd (attempt delay operation n s))))"
    by (simp add: attempt_def split: prod.splits)
  have d2: "\<exists>m>n. (\<forall>k<m. retried delay operation maxElapsed k s)
                 \<and> finished delay operation maxElapsed m s res"
    if again: "retried delay operation maxElapsed n s"
      and ret: "retryOperator delay operation maxElapsed s = Some res" for res
  proof -
    from retryOperator_returns [OF ret] obtain m
      where m: "\<forall>k<m. retried delay operation maxElapsed k s"
        "finished delay operation maxElapsed m s res"
      by blast
    from m(2) have stop: "\<not> retried delay operation maxElapsed m s"
      by (rule finished_not_retried)
    with again have "m \<noteq> n" by blast
    moreover from stop assms have "\<not> m < n" by blast
    ultimately have "n < m" by simp
    with m show ?thesis by blast
  qed
  from a b c d1 d2 show ?thesis by blast
qed

theorem retryOperator_stops_at_first_terminal_attempt_witness:
  "retried Suc (flaky 2 None 1) 10 0 (0, origin)
   \<and> retried Suc (flaky 2 None 1) 10 1 (0, origin)
   \<and> retryOperator Suc (flaky 2 None 1) 10 (0, origin)
       = Some (None, 3, \<lparr>calls = [], now = 6, logs = []\<rparr>)
   \<and> retried Suc (flaky 1 (Some (PermanentError (ErrorString ''denied''))) 1) 10 0 (0, origin)
   \<and> retryOperator Suc (flaky 1 (Some (PermanentError (ErrorString ''denied''))) 1) 10 (0, origin)
       = Some (Some (PermanentError (ErrorString ''denied'')), 2,
               \<lparr>calls = [], now = 3, logs = []\<rparr>)
   \<and> retried Suc (flaky 5 None 4) 10 0 (0, origin)
   \<and> retried Suc (flaky 5 None 4) 10 1 (0, origin)
   \<and> retryOperator Suc (flaky 5 None 4) 10 (0, origin)
       = Some (Some (TimedOutError (ErrorString ''busy'')), 3,
               \<lparr>calls = [], now = 15, logs = []\<rparr>)"
proof -
  have two: "\<And>P. (\<forall>k<2::nat. P k) \<longleftrightarrow> P 0 \<and> P 1"
    by (auto simp: less_Suc_eq numeral_2_eq_2)
  have h1: "\<forall>k<2. retried Suc (flaky 2 None 1) 10 k (0, origin)"
    by (simp add: two retried_def attempt_def elapsed_after_def flaky_def origin_def sleep_def)
  have a1: "attempt Suc (flaky 2 None 1) 2 (0, origin)
              = (None, 3, \<lparr>calls = [], now = 6, logs = []\<rparr>)"
    by (simp add: numeral_2_eq_2 attempt_def flaky_def origin_def sleep_def)
  have h2: "\<forall>k<1. retried Suc (flaky 1 (Some (PermanentError (ErrorString ''denied''))) 1) 10 k
              (0, origin)"
    by (simp add: retried_def attempt_def elapsed_after_def flaky_def origin_def sleep_def)
  have a2: "attempt Suc (flaky 1 (Some (PermanentError (ErrorString ''denied''))) 1) 1 (0, origin)
              = (Some (PermanentError (ErrorString ''denied'')), 2,
                 \<lparr>calls = [], now = 3, logs = []\<rparr>)"
    by (simp add: attempt_def flaky_def origin_def sleep_def)
  have h3: "\<forall>k<2. retried Suc (flaky 5 None 4) 10 k (0, origin)"
    by (simp add: two retried_def attempt_def elapsed_after_def flaky_def origin_def sleep_def)
  have a3: "attempt Suc (flaky 5 None 4) 2 (0, origin)
              = (Some (ErrorString ''busy''), 3, \<lparr>calls = [], now = 15, logs = []\<rparr>)"
    by (simp add: numeral_2_eq_2 attempt_def flaky_def origin_def sleep_def)
  have e3: "elapsed_after Suc (flaky 5 None 4) 2 (0, origin) = 15"
    unfolding elapsed_after_def a3 by (simp add: origin_def)
  have r1: "retryOperator Suc (flaky 2 None 1) 10 (0, origin)
       = Some (None, 3, \<lparr>calls = [], now = 6, logs = []\<rparr>)"
    using retryOperator_stops_at_first_terminal_attempt [OF h1] a1 by simp
  have r2: "retryOperator Suc (flaky 1 (Some (PermanentError (ErrorString ''denied''))) 1) 10
              (0, origin)
       = Some (Some (PermanentError (ErrorString ''denied'')), 2,
               \<lparr>calls = [], now = 3, logs = []\<rparr>)"
    using retryOperator_stops_at_first_terminal_attempt [OF h2] a2 by simp
  have r3: "retryOperator Suc (flaky 5 None 4) 10 (0, origin)
       = Some (Some (TimedOutError (ErrorString ''busy'')), 3,
               \<lparr>calls = [], now = 15, logs = []\<rparr>)"
    using retryOperator_stops_at_first_terminal_attempt [OF h3] a3 e3 by simp
  from h1 h3 have "retried Suc (flaky 2 None 1) 10 0 (0, origin)"
    "retried Suc (flaky 2 None 1) 10 1 (0, origin)"
    "retried Suc (flaky 5 None 4) 10 0 (0, origin)"
    "retried Suc (flaky 5 None 4) 10 1 (0, origin)"
    by (simp_all only: two)
  moreover from h2 have
    "retried Suc (flaky 1 (Some (PermanentError (ErrorString ''denied''))) 1) 10 0 (0, origin)"
    by blast
  ultimately show ?thesis using r1 r2 r3 by blast
qed

text \<open>
  C7. Whenever the operator returns an error, there is a last attempt: its error is the
  one returned, and either that error is tagged Permanent and is returned as it is, so
  that the caller reads \<open>PermanentlyFailed\<close> off the value, or it is untagged, the time
  budget is exceeded and it is returned wrapped as timed out, so that the caller reads
  \<open>TimedOut\<close>: the two kinds of failure are different values. When the clock never runs
  backwards during an attempt, every backoff delay is positive and no attempt succeeds,
  the operator does return an error.
\<close>

theorem retryOperator_failure_is_permanent_or_timed_out:
  "(\<forall>r s'. retryOperator delay operation maxElapsed s = Some (Some r, s') \<longrightarrow>
      (\<exists>n err. (\<forall>k<n. retried delay operation maxElapsed k s)
         \<and> fst (attempt delay operation n s) = Some err
         \<and> s' = snd (attempt delay operation n s)
         \<and> ((tagged_permanent err \<and> r = err
               \<and> terminal_state (Some r) = Some PermanentlyFailed)
            \<or> (\<not> tagged_permanent err \<and> maxElapsed < elapsed_after delay operation n s
               \<and> r = TimedOutError err \<and> terminal_state (Some r) = Some TimedOut))))
   \<and> ((\<forall>x. now (snd x) \<le> now (snd (snd (operation x)))) \<and> (\<forall>n. 0 < delay n)
        \<and> (\<forall>k. fst (attempt delay operation k s) \<noteq> None) \<longrightarrow>
        (\<exists>r s'. retryOperator delay operation maxElapsed s = Some (Some r, s')))"
proof -
  have tag: "\<And>err. tagged_permanent err \<Longrightarrow> terminal_state (Some err) = Some PermanentlyFailed"
    subgoal for err by (cases err) simp_all
    done
  have shape: "\<exists>n err. (\<forall>k<n. retried delay operation maxElapsed k s)
         \<and> fst (attempt delay operation n s) = Some err
         \<and> s' = snd (attempt delay operation n s)
         \<and> ((tagged_permanent err \<and> r = err
               \<and> terminal_state (Some r) = Some PermanentlyFailed)
            \<or> (\<not> tagged_permanent err \<and> maxElapsed < elapsed_after delay operation n s
               \<and> r = TimedOutError err \<and> terminal_state (Some r) = Some TimedOut))"
    if ret: "retryOperator delay operation maxElapsed s = Some (Some r, s')" for r s'
  proof -
    from retryOperator_returns [OF ret] obtain n
      where n: "\<forall>k<n. retried delay operation maxElapsed k s"
        and fin: "finished delay operation maxElapsed n s (Some r, s')"
      by blast
    from fin obtain err where err: "fst (attempt delay operation n s) = Some err"
      by (cases "fst (attempt delay operation n s)") (auto simp: finished_def)
    show ?thesis
    proof (cases "tagged_permanent err")
      case True
      with fin err have "r = err" "s' = snd (attempt delay operation n s)"
        by (simp_all add: finished_def)
      with True n err tag show ?thesis by (intro exI[of _ n] exI[of _ err]) simp
    next
      case False
      with fin err have "r = TimedOutError err" "s' = snd (attempt delay operation n s)"
        "maxElapsed < elapsed_after delay operation n s"
        by (simp_all add: finished_def)
      with False n err show ?thesis by (intro exI[of _ n] exI[of _ err]) simp
    qed
  qed
  have total: "\<exists>r s'. retryOperator delay operation maxElapsed s = Some (Some r, s')"
    if mono: "\<forall>x. now (snd x) \<le> now (snd (snd (operation x)))"
      and pos: "\<forall>n. 0 < delay n"
      and fail: "\<forall>k. fst (attempt delay operation k s) \<noteq> None"
  proof -
    from retryOperator_total [OF mono pos] obtain m res
      where fin: "finished delay operation maxElapsed m s res"
        and ret: "retryOperator delay operation maxElapsed s = Some res"
      by blast
    from fail obtain err where "fst (attempt delay operation m s) = Some err" by auto
    with fin obtain r where "res = (Some r, snd (attempt delay operation m s))"
      by (auto simp: finished_def split: if_splits)
    with ret show ?thesis by blast
  qed
  from shape total show ?thesis by blast
qed

theorem retryOperator_failure_is_permanent_or_timed_out_witness:
  "(\<forall>x. now (snd x) \<le> now (snd (snd (flaky 0 (Some (ErrorString ''down'')) 4 x))))
   \<and> (\<forall>n. 0 < Suc n)
   \<and> (\<forall>k. fst (attempt Suc (flaky 0 (Some (ErrorString ''down'')) 4) k (0, origin)) \<noteq> None)
   \<and> retryOperator Suc (flaky 0 (Some (ErrorString ''down'')) 4) 10 (0, origin)
       = Some (Some (TimedOutError (ErrorString ''down'')), 3,
               \<lparr>calls = [], now = 15, logs = []\<rparr>)
   \<and> terminal_state (Some (TimedOutError (ErrorString ''down''))) = Some TimedOut
   \<and> (\<exists>r s'. retryOperator Suc (flaky 0 (Some (ErrorString ''down'')) 4) 10 (0, origin)
               = Some (Some r, s'))"
proof -
  have two: "\<And>P. (\<forall>k<2::nat. P k) \<longleftrightarrow> P 0 \<and> P 1"
    by (auto simp: less_Suc_eq numeral_2_eq_2)
  have mono: "\<forall>x. now (snd x) \<le> now (snd (snd (flaky 0 (Some (ErrorString ''down'')) 4 x)))"
    by (simp add: flaky_def split_beta)
  have fail: "\<forall>k. fst (attempt Suc (flaky 0 (Some (ErrorString ''down'')) 4) k (0, origin)) \<noteq> None"
    by (simp add: attempt_def flaky_def split_beta)
  have h: "\<forall>k<2. retried Suc (flaky 0 (Some (ErrorString ''down'')) 4) 10 k (0, origin)"
    by (simp add: two retried_def attempt_def elapsed_after_def flaky_def origin_def sleep_def)
  have f: "finished Suc (flaky 0 (Some (ErrorString ''down'')) 4) 10 2 (0, origin)
             (Some (TimedOutError (ErrorString ''down'')), 3, \<lparr>calls = [], now = 15, logs = []\<rparr>)"
    by (simp add: numeral_2_eq_2 finished_def attempt_def elapsed_after_def flaky_def origin_def
          sleep_def)
  have r: "retryOperator Suc (flaky 0 (Some (ErrorString ''down'')) 4) 10 (0, origin)
       = Some (Some (TimedOutError (ErrorString ''down'')), 3,
               \<lparr>calls = [], now = 15, logs = []\<rparr>)"
    by (rule retryOperator_finished [OF h f])
  from retryOperator_failure_is_permanent_or_timed_out
         [of Suc "flaky 0 (Some (ErrorString ''down'')) 4" 10 "(0, origin)"]
       mono fail r
  show ?thesis by simp
qed



section \<open>Package dns: closures, wrappers, the record search and the constructor\<close>

lemma PermanentError_neq: "PermanentError e \<noteq> e"
  by (induction e) auto

lemma deleteDnsRecord_result:
  "fst (deleteDnsRecord P a req (v, w))
   = (case fst (DeleteDomainRecord (Client a) w req) of
        Inr u \<Rightarrow> None
      | Inl err \<Rightarrow> Some (if P (error_Error err) then PermanentError err else err))"
  by (simp add: deleteDnsRecord_def invoke_def backoff_Permanent_def
           split: prod.splits sum.splits)

lemma addRecord_result:
  "fst (addRecord Sprintf P a commonName token (v, w))
   = (case fst (AddDomainRecord (Client a) w
                  \<lparr>AddDomainRecordRequest.DomainName = commonName,
                   AddDomainRecordRequest.RR = ''@'', AddDomainRecordRequest.Type = ''TXT'',
                   AddDomainRecordRequest.Value = token\<rparr>) of
        Inr u \<Rightarrow> None
      | Inl err \<Rightarrow> Some (if P (error_Error err) then PermanentError err else err))"
  by (simp add: addRecord_def AddDnsRecord_def invoke_def backoff_Permanent_def Let_def
           split: prod.splits sum.splits)

lemma updateRecord_result:
  "fst (updateRecord Sprintf P a found token (v, w))
   = (case fst (UpdateDomainRecord (Client a) w
                  \<lparr>UpdateDomainRecordRequest.RecordId =
                     DescribeDomainRecordsResponseBodyDomainRecordsRecord.RecordId found,
                   UpdateDomainRecordRequest.RR =
                     DescribeDomainRecordsResponseBodyDomainRecordsRecord.RR found,
                   UpdateDomainRecordRequest.Type =
                     DescribeDomainRecordsResponseBodyDomainRecordsRecord.Type found,
                   UpdateDomainRecordRequest.Value = token\<rparr>) of
        Inr u \<Rightarrow> None
      | Inl err \<Rightarrow> Some (if P (error_Error err) then PermanentError err else err))"
  by (simp add: updateRecord_def UpdateDnsRecord_def invoke_def backoff_Permanent_def Let_def
           split: prod.splits sum.splits)

lemma calls_deleteDnsRecord:
  "calls (snd (snd (deleteDnsRecord P a req (v, w)))) = calls w @ [CallDeleteDomainRecord req]"
  by (simp add: deleteDnsRecord_def invoke_def split: prod.splits sum.splits)

lemma calls_addRecord:
  "calls (snd (snd (addRecord Sprintf P a commonName token (v, w))))
   = calls w @ [CallAddDomainRecord
                  \<lparr>AddDomainRecordRequest.DomainName = commonName,
                   AddDomainRecordRequest.RR = ''@'', AddDomainRecordRequest.Type = ''TXT'',
                   AddDomainRecordRequest.Value = token\<rparr>]"
  by (simp add: addRecord_def AddDnsRecord_def invoke_def Let_def
           split: prod.splits sum.splits)

lemma calls_updateRecord:
  "calls (snd (snd (updateRecord Sprintf P a found token (v, w))))
   = calls w @ [CallUpdateDomainRecord
                  \<lparr>UpdateDomainRecordRequest.RecordId =
                     DescribeDomainRecordsResponseBodyDomainRecordsRecord.RecordId found,
                   UpdateDomainRecordRequest.RR =
                     DescribeDomainRecordsResponseBodyDomainRecordsRecord.RR found,
                   UpdateDomainRecordRequest.Type =
                     DescribeDomainRecordsResponseBodyDomainRecordsRecord.Type found,
                   UpdateDomainRecordRequest.Value = token\<rparr>]"
  by (simp add: updateRecord_def UpdateDnsRecord_def invoke_def Let_def
           split: prod.splits sum.splits)

lemma addRecord_recordId:
  "AddDomainRecord (Client a) w
     \<lparr>AddDomainRecordRequest.DomainName = commonName,
      AddDomainRecordRequest.RR = ''@'', AddDomainRecordRequest.Type = ''TXT'',
      AddDomainRecordRequest.Value = token\<rparr> = (Inr response, d) \<Longrightarrow>
   fst (snd (addRecord Sprintf P a commonName token (v, w)))
   = AddDomainRecordResponseBody.RecordId (AddDomainRecordResponse.Body response)"
  by (simp add: addRecord_def AddDnsRecord_def invoke_def Let_def)

lemma foundDnsRecord_first:
  "\<forall>x\<in>set pre. \<not> matches commonName x \<Longrightarrow> matches commonName r \<Longrightarrow>
   foundDnsRecord commonName (pre @ r # post) = Some r"
  by (induction pre) (auto simp: matches_def)

lemma foundDnsRecord_none:
  "\<forall>x\<in>set rs. \<not> matches commonName x \<Longrightarrow> foundDnsRecord commonName rs = None"
  by (induction rs) (auto simp: matches_def)

lemma CreateAliDNSRecord_empty:
  "GetAllDnsRecords a commonName w = (([], None), w1) \<Longrightarrow>
   CreateAliDNSRecord Sprintf R P a commonName token w
   = Some (('''', Some (Errorf Sprintf ''domain name not found in Alidns'' [])), w1)"
  by (simp add: CreateAliDNSRecord_def)

lemma CreateAliDNSRecord_update:
  "GetAllDnsRecords a commonName w = ((dnsRecords, None), w1) \<Longrightarrow>
   foundDnsRecord commonName dnsRecords = Some found \<Longrightarrow>
   CreateAliDNSRecord Sprintf R P a commonName token w
   = (case R (updateRecord Sprintf P a found token) MAX_ELAPSED_TIME ('''', w1) of
        None \<Rightarrow> None
      | Some (Some err, _, w2) \<Rightarrow>
          Some (('''', Some (Errorf Sprintf
            ''Alidns update dns record. Failed to Update verification TXT record: %v''
            [ArgError err])), w2)
      | Some (None, _, w2) \<Rightarrow>
          Some ((DescribeDomainRecordsResponseBodyDomainRecordsRecord.RecordId found, None), w2))"
  by (cases dnsRecords) (simp_all add: CreateAliDNSRecord_def)

lemma CreateAliDNSRecord_add:
  "GetAllDnsRecords a commonName w = ((dnsRecords, None), w1) \<Longrightarrow>
   dnsRecords \<noteq> [] \<Longrightarrow> foundDnsRecord commonName dnsRecords = None \<Longrightarrow>
   CreateAliDNSRecord Sprintf R P a commonName token w
   = (case R (addRecord Sprintf P a commonName token) MAX_ELAPSED_TIME ('''', w1) of
        None \<Rightarrow> None
      | Some (Some err, _, w2) \<Rightarrow>
          Some (('''', Some (Errorf Sprintf
            ''Alidns create dns record. Failed to create verification TXT record: %v''
            [ArgError err])), w2)
      | Some (None, recordId, w2) \<Rightarrow> Some ((recordId, None), w2))"
  by (simp add: CreateAliDNSRecord_def)

lemma calls_GetAllDnsRecords:
  "calls (snd (GetAllDnsRecords a domain w))
   = calls w @ [CallDescribeDomainRecords
                  \<lparr>DescribeDomainRecordsRequest.DomainName = domain, PageSize = 500\<rparr>]"
  by (simp add: GetAllDnsRecords_def invoke_def Let_def split: prod.splits sum.splits)

lemma retryOperator_first_attempt:
  "fst (operation s) = None \<or> (\<exists>err. fst (operation s) = Some err \<and> tagged_permanent err) \<Longrightarrow>
   retryOperator delay operation maxElapsed s = Some (operation s)"
proof -
  assume "fst (operation s) = None \<or> (\<exists>err. fst (operation s) = Some err \<and> tagged_permanent err)"
  then have "finished delay operation maxElapsed 0 s (operation s)"
    by (cases "operation s") (auto simp: finished_def attempt_def)
  then show ?thesis
    using retryOperator_finished [of 0 delay operation maxElapsed s "operation s"] by simp
qed

lemma renders_error_operand_Sprintf_verbs: "renders_error_operand Sprintf_verbs"
proof -
  have "Sprintf_verbs (pre @ ''%v'') [ArgError err] = pre @ error_Error err"
    if "CHR ''%'' \<notin> set pre" for pre err
    using that by (induction pre) auto
  then show ?thesis by (simp add: renders_error_operand_def)
qed

lemma Errorf_renders:
  "renders_error_operand Sprintf \<Longrightarrow> CHR ''%'' \<notin> set pre \<Longrightarrow>
   Errorf Sprintf (pre @ ''%v'') [ArgError err] = ErrorString (pre @ error_Error err)"
  by (simp add: Errorf_def renders_error_operand_def)

lemma calls_sleep: "calls (sleep d w) = calls w"
  by (simp add: sleep_def)

lemma calls_before_attempt:
  assumes one: "\<forall>v w. calls (snd (snd (operation (v, w)))) = calls w @ [c]"
  shows "calls (snd (before_attempt delay operation m s)) = calls (snd s) @ replicate m c"
proof (induction m)
  case 0
  show ?case by simp
next
  case (Suc m)
  obtain v w where b: "before_attempt delay operation m s = (v, w)"
    by (cases "before_attempt delay operation m s") auto
  obtain r v' w' where op: "operation (v, w) = (r, v', w')"
    by (cases "operation (v, w)") auto
  from one have "calls (snd (snd (operation (v, w)))) = calls w @ [c]" by blast
  then have "calls w' = calls w @ [c]" by (simp add: op)
  with Suc show ?case
    by (simp add: b op calls_sleep replicate_append_same)
qed

lemma finished_state:
  "finished delay operation maxElapsed m s (r, st) \<Longrightarrow> st = snd (attempt delay operation m s)"
  by (auto simp: finished_def split: option.splits if_splits)

lemma retryOperator_calls:
  assumes one: "\<forall>v w. calls (snd (snd (operation (v, w)))) = calls w @ [c]"
    and ret: "retryOperator delay operation maxElapsed s = Some (r, v2, w2)"
  shows "\<exists>m. calls w2 = calls (snd s) @ replicate (Suc m) c"
proof -
  from retryOperator_returns [OF ret] obtain m
    where fin: "finished delay operation maxElapsed m s (r, v2, w2)"
    by blast
  then have st: "(v2, w2) = snd (attempt delay operation m s)"
    by (rule finished_state)
  obtain v w where b: "before_attempt delay operation m s = (v, w)"
    by (cases "before_attempt delay operation m s") auto
  from one have "calls (snd (snd (operation (v, w)))) = calls w @ [c]" by blast
  with st have "calls w2 = calls w @ [c]"
    by (simp add: attempt_def b) (metis snd_conv)
  moreover from calls_before_attempt [OF one, of delay m s]
  have "calls w = calls (snd s) @ replicate m c"
    by (simp add: b)
  ultimately have "calls w2 = calls (snd s) @ replicate (Suc m) c"
    by (simp add: replicate_append_same)
  then show ?thesis ..
qed

lemma retryOperator_success_attempt:
  assumes "retryOperator delay operation maxElapsed s = Some (None, st)"
  shows "\<exists>x. operation x = (None, st)"
proof -
  from retryOperator_returns [OF assms] obtain m
    where fin: "finished delay operation maxElapsed m s (None, st)"
    by blast
  then have "attempt delay operation m s = (None, st)"
    by (cases "attempt delay operation m s")
       (auto simp: finished_def split: option.splits if_splits)
  then have "operation (before_attempt delay operation m s) = (None, st)"
    by (simp add: attempt_def)
  then show ?thesis ..
qed

lemma addRecord_success:
  assumes "addRecord Sprintf P a commonName token (v, w) = (None, recordId, w2)"
  shows "\<exists>response d.
           AddDomainRecord (Client a) w
             \<lparr>AddDomainRecordRequest.DomainName = commonName,
              AddDomainRecordRequest.RR = ''@'', AddDomainRecordRequest.Type = ''TXT'',
              AddDomainRecordRequest.Value = token\<rparr> = (Inr response, d)
           \<and> recordId
               = AddDomainRecordResponseBody.RecordId (AddDomainRecordResponse.Body response)"
  using assms
  by (auto simp: addRecord_def AddDnsRecord_def invoke_def Let_def
           split: prod.splits sum.splits if_splits)

text \<open>
  C3, as amended. Let \<^verbatim>\<open>GetAllDnsRecords\<close> succeed with the list \<open>dnsRecords\<close>. If the
  list is empty, \<^verbatim>\<open>CreateAliDNSRecord\<close> returns the error "domain name not found in Alidns"
  and the only request sent is the listing: nothing is added or updated. If \<open>r\<close> is the
  first record of the list with DomainName equal to \<open>commonName\<close>, RR "@" and Type "TXT",
  the function hands the update of \<open>r\<close> to the Retry Operator: when the operator returns
  success the function returns the id of \<open>r\<close>, when it returns an error the function
  returns the empty id and the error \<^verbatim>\<open>fmt.Errorf\<close> builds from it; and whenever the
  Retry Operator of the spec returns, the requests sent are the listing followed by one or
  more updates of the record with the id of \<open>r\<close> to the value \<open>token\<close>, and nothing
  else. If the list is not empty and no record matches, the same holds with the addition
  of an "@" TXT record with the value \<open>token\<close> in place of the update, and the id
  returned on success is the id the service gave in its response to an addition.
\<close>

theorem CreateAliDNSRecord_updates_first_match_or_adds:
  assumes "GetAllDnsRecords a commonName w = ((dnsRecords, None), w1)"
  shows
  "(dnsRecords = [] \<longrightarrow>
      CreateAliDNSRecord Sprintf R P a commonName token w
      = Some (('''', Some (Errorf Sprintf ''domain name not found in Alidns'' [])), w1)
      \<and> calls w1 = calls w @ [CallDescribeDomainRecords
           \<lparr>DescribeDomainRecordsRequest.DomainName = commonName, PageSize = 500\<rparr>])
   \<and> (dnsRecords = pre @ r # post \<and> (\<forall>x\<in>set pre. \<not> matches commonName x)
        \<and> matches commonName r \<longrightarrow>
        (\<forall>v w2. R (updateRecord Sprintf P a r token) MAX_ELAPSED_TIME ('''', w1)
                      = Some (None, v, w2) \<longrightarrow>
             CreateAliDNSRecord Sprintf R P a commonName token w
             = Some ((DescribeDomainRecordsResponseBodyDomainRecordsRecord.RecordId r, None), w2))
        \<and> (\<forall>err v w2. R (updateRecord Sprintf P a r token) MAX_ELAPSED_TIME ('''', w1)
                      = Some (Some err, v, w2) \<longrightarrow>
             CreateAliDNSRecord Sprintf R P a commonName token w
             = Some (('''', Some (Errorf Sprintf
                 ''Alidns update dns record. Failed to Update verification TXT record: %v''
                 [ArgError err])), w2))
        \<and> (\<forall>res v w2.
              retryOperator delay (updateRecord Sprintf P a r token) MAX_ELAPSED_TIME ('''', w1)
                = Some (res, v, w2) \<longrightarrow>
              (\<exists>m. calls w2
                 = calls w
                   @ CallDescribeDomainRecords
                       \<lparr>DescribeDomainRecordsRequest.DomainName = commonName, PageSize = 500\<rparr>
                   # replicate (Suc m)
                       (CallUpdateDomainRecord
                          \<lparr>UpdateDomainRecordRequest.RecordId =
                             DescribeDomainRecordsResponseBodyDomainRecordsRecord.RecordId r,
                           UpdateDomainRecordRequest.RR = ''@'',
                           UpdateDomainRecordRequest.Type = ''TXT'',
                           UpdateDomainRecordRequest.Value = token\<rparr>))))
   \<and> (dnsRecords \<noteq> [] \<and> (\<forall>x\<in>set dnsRecords. \<not> matches commonName x) \<longrightarrow>
        (\<forall>recordId w2. R (addRecord Sprintf P a commonName token) MAX_ELAPSED_TIME ('''', w1)
                      = Some (None, recordId, w2) \<longrightarrow>
             CreateAliDNSRecord Sprintf R P a commonName token w
             = Some ((recordId, None), w2))
        \<and> (\<forall>err v w2. R (addRecord Sprintf P a commonName token) MAX_ELAPSED_TIME ('''', w1)
                      = Some (Some err, v, w2) \<longrightarrow>
             CreateAliDNSRecord Sprintf R P a commonName token w
             = Some (('''', Some (Errorf Sprintf
                 ''Alidns create dns record. Failed to create verification TXT record: %v''
                 [ArgError err])), w2))
        \<and> (\<forall>res recordId w2.
              retryOperator delay (addRecord Sprintf P a commonName token) MAX_ELAPSED_TIME
                ('''', w1) = Some (res, recordId, w2) \<longrightarrow>
              (\<exists>m. calls w2
                 = calls w
                   @ CallDescribeDomainRecords
                       \<lparr>DescribeDomainRecordsRequest.DomainName = commonName, PageSize = 500\<rparr>
                   # replicate (Suc m)
                       (CallAddDomainRecord
                          \<lparr>AddDomainRecordRequest.DomainName = commonName,
                           AddDomainRecordRequest.RR = ''@'',
                           AddDomainRecordRequest.Type = ''TXT'',
                           AddDomainRecordRequest.Value = token\<rparr>))
              \<and> (res = None \<longrightarrow>
                   (\<exists>w' response d.
                      AddDomainRecord (Client a) w'
                        \<lparr>AddDomainRecordRequest.DomainName = commonName,
                         AddDomainRecordRequest.RR = ''@'',
                         AddDomainRecordRequest.Type = ''TXT'',
                         AddDomainRecordRequest.Value = token\<rparr> = (Inr response, d)
                      \<and> recordId = AddDomainRecordResponseBody.RecordId
                                     (AddDomainRecordResponse.Body response)))))"
proof -
  let ?describe = "CallDescribeDomainRecords
           \<lparr>DescribeDomainRecordsRequest.DomainName = commonName, PageSize = 500\<rparr>"
  let ?areq = "\<lparr>AddDomainRecordRequest.DomainName = commonName,
                AddDomainRecordRequest.RR = ''@'', AddDomainRecordRequest.Type = ''TXT'',
                AddDomainRecordRequest.Value = token\<rparr>"
  have e: "dnsRecords = [] \<Longrightarrow>
      CreateAliDNSRecord Sprintf R P a commonName token w
      = Some (('''', Some (Errorf Sprintf ''domain name not found in Alidns'' [])), w1)"
    using assms by (simp add: CreateAliDNSRecord_empty)
  have c: "calls w1 = calls w @ [?describe]"
    using calls_GetAllDnsRecords [of a commonName w] assms by simp
  have u1: "\<And>v w2. dnsRecords = pre @ r # post \<Longrightarrow>
        \<forall>x\<in>set pre. \<not> matches commonName x \<Longrightarrow> matches commonName r \<Longrightarrow>
        R (updateRecord Sprintf P a r token) MAX_ELAPSED_TIME ('''', w1) = Some (None, v, w2) \<Longrightarrow>
        CreateAliDNSRecord Sprintf R P a commonName token w
        = Some ((DescribeDomainRecordsResponseBodyDomainRecordsRecord.RecordId r, None), w2)"
    using assms by (simp add: CreateAliDNSRecord_update foundDnsRecord_first)
  have u2: "\<And>err v w2. dnsRecords = pre @ r # post \<Longrightarrow>
        \<forall>x\<in>set pre. \<not> matches commonName x \<Longrightarrow> matches commonName r \<Longrightarrow>
        R (updateRecord Sprintf P a r token) MAX_ELAPSED_TIME ('''', w1)
          = Some (Some err, v, w2) \<Longrightarrow>
        CreateAliDNSRecord Sprintf R P a commonName token w
        = Some (('''', Some (Errorf Sprintf
                 ''Alidns update dns record. Failed to Update verification TXT record: %v''
                 [ArgError err])), w2)"
    using assms by (simp add: CreateAliDNSRecord_update foundDnsRecord_first)
  have u3: "\<exists>m. calls w2
                 = calls w @ ?describe
                   # replicate (Suc m)
                       (CallUpdateDomainRecord
                          \<lparr>UpdateDomainRecordRequest.RecordId =
                             DescribeDomainRecordsResponseBodyDomainRecordsRecord.RecordId r,
                           UpdateDomainRecordRequest.RR = ''@'',
                           UpdateDomainRecordRequest.Type = ''TXT'',
                           UpdateDomainRecordRequest.Value = token\<rparr>)"
    if m: "matches commonName r"
      and ret: "retryOperator delay (updateRecord Sprintf P a r token) MAX_ELAPSED_TIME
                  ('''', w1) = Some (res, v, w2)"
    for res v w2
  proof -
    have one: "\<forall>v w. calls (snd (snd (updateRecord Sprintf P a r token (v, w))))
                 = calls w @ [CallUpdateDomainRecord
                          \<lparr>UpdateDomainRecordRequest.RecordId =
                             DescribeDomainRecordsResponseBodyDomainRecordsRecord.RecordId r,
                           UpdateDomainRecordRequest.RR = ''@'',
                           UpdateDomainRecordRequest.Type = ''TXT'',
                           UpdateDomainRecordRequest.Value = token\<rparr>]"
      using m by (simp add: calls_updateRecord matches_def)
    from retryOperator_calls [OF one ret] show ?thesis
      by (simp add: c)
  qed
  have a1: "\<And>recordId w2. dnsRecords \<noteq> [] \<Longrightarrow> \<forall>x\<in>set dnsRecords. \<not> matches commonName x \<Longrightarrow>
        R (addRecord Sprintf P a commonName token) MAX_ELAPSED_TIME ('''', w1)
          = Some (None, recordId, w2) \<Longrightarrow>
        CreateAliDNSRecord Sprintf R P a commonName token w = Some ((recordId, None), w2)"
    using assms by (simp add: CreateAliDNSRecord_add foundDnsRecord_none)
  have a2: "\<And>err v w2. dnsRecords \<noteq> [] \<Longrightarrow> \<forall>x\<in>set dnsRecords. \<not> matches commonName x \<Longrightarrow>
        R (addRecord Sprintf P a commonName token) MAX_ELAPSED_TIME ('''', w1)
          = Some (Some err, v, w2) \<Longrightarrow>
        CreateAliDNSRecord Sprintf R P a commonName token w
        = Some (('''', Some (Errorf Sprintf
                 ''Alidns create dns record. Failed to create verification TXT record: %v''
                 [ArgError err])), w2)"
    using assms by (simp add: CreateAliDNSRecord_add foundDnsRecord_none)
  have a3: "\<exists>m. calls w2
                 = calls w @ ?describe # replicate (Suc m) (CallAddDomainRecord ?areq)"
    if ret: "retryOperator delay (addRecord Sprintf P a commonName token) MAX_ELAPSED_TIME
                  ('''', w1) = Some (res, recordId, w2)"
    for res recordId w2
  proof -
    have one: "\<forall>v w. calls (snd (snd (addRecord Sprintf P a commonName token (v, w))))
                 = calls w @ [CallAddDomainRecord ?areq]"
      by (simp add: calls_addRecord)
    from retryOperator_calls [OF one ret] show ?thesis
      by (simp add: c)
  qed
  have a4: "\<exists>w' response d.
              AddDomainRecord (Client a) w' ?areq = (Inr response, d)
              \<and> recordId = AddDomainRecordResponseBody.RecordId
                             (AddDomainRecordResponse.Body response)"
    if ret: "retryOperator delay (addRecord Sprintf P a commonName token) MAX_ELAPSED_TIME
                  ('''', w1) = Some (None, recordId, w2)"
    for recordId w2
  proof -
    from retryOperator_success_attempt [OF ret] obtain v w'
      where "addRecord Sprintf P a commonName token (v, w') = (None, recordId, w2)"
      by (metis surj_pair)
    from addRecord_success [OF this] show ?thesis by blast
  qed
  show ?thesis
  proof (intro conjI impI allI; (elim conjE)?)
    assume "dnsRecords = []"
    then show "CreateAliDNSRecord Sprintf R P a commonName token w
      = Some (('''', Some (Errorf Sprintf ''domain name not found in Alidns'' [])), w1)"
      by (rule e)
  next
    fix res recordId w2
    assume "retryOperator delay (addRecord Sprintf P a commonName token) MAX_ELAPSED_TIME
                ('''', w1) = Some (res, recordId, w2)"
      and "res = None"
    then show "\<exists>w' response d.
              AddDomainRecord (Client a) w' ?areq = (Inr response, d)
              \<and> recordId = AddDomainRecordResponseBody.RecordId
                             (AddDomainRecordResponse.Body response)"
      using a4 by blast
  next
    fix res v w2
    assume "matches commonName r"
      and "retryOperator delay (updateRecord Sprintf P a r token) MAX_ELAPSED_TIME ('''', w1)
             = Some (res, v, w2)"
    then show "\<exists>m. calls w2
                 = calls w @ ?describe
                   # replicate (Suc m)
                       (CallUpdateDomainRecord
                          \<lparr>UpdateDomainRecordRequest.RecordId =
                             DescribeDomainRecordsResponseBodyDomainRecordsRecord.RecordId r,
                           UpdateDomainRecordRequest.RR = ''@'',
                           UpdateDomainRecordRequest.Type = ''TXT'',
                           UpdateDomainRecordRequest.Value = token\<rparr>)"
      by (rule u3)
  next
    fix res recordId w2
    assume "retryOperator delay (addRecord Sprintf P a commonName token) MAX_ELAPSED_TIME
                ('''', w1) = Some (res, recordId, w2)"
    then show "\<exists>m. calls w2
                 = calls w @ ?describe # replicate (Suc m) (CallAddDomainRecord ?areq)"
      by (rule a3)
  qed (simp_all add: c u1 u2 a1 a2)
qed

theorem CreateAliDNSRecord_updates_first_match_or_adds_witness:
  "GetAllDnsRecords \<lparr>Client = zone_Client [] (Inr ())\<rparr> ''example.com'' origin
     = (([], None),
        \<lparr>calls = [CallDescribeDomainRecords
                     \<lparr>DescribeDomainRecordsRequest.DomainName = ''example.com'', PageSize = 500\<rparr>],
         now = 1, logs = []\<rparr>)
   \<and> CreateAliDNSRecord Sprintf_format_only (retryOperator Suc) (\<lambda>m. False)
        \<lparr>Client = zone_Client [] (Inr ())\<rparr> ''example.com'' ''token'' origin
     = Some (('''', Some (ErrorString ''domain name not found in Alidns'')),
        \<lparr>calls = [CallDescribeDomainRecords
                     \<lparr>DescribeDomainRecordsRequest.DomainName = ''example.com'', PageSize = 500\<rparr>],
         now = 1, logs = []\<rparr>)
   \<and> CreateAliDNSRecord Sprintf_format_only (retryOperator Suc) (\<lambda>m. False)
        \<lparr>Client = zone_Client
           [record_of ''example.com'' ''www'' ''A'' ''r1'',
            record_of ''example.com'' ''@'' ''TXT'' ''r2'',
            record_of ''example.com'' ''@'' ''TXT'' ''r3''] (Inr ())\<rparr>
        ''example.com'' ''token'' origin
     = Some ((''r2'', None),
        \<lparr>calls = [CallDescribeDomainRecords
                     \<lparr>DescribeDomainRecordsRequest.DomainName = ''example.com'', PageSize = 500\<rparr>,
                  CallUpdateDomainRecord
                     \<lparr>UpdateDomainRecordRequest.RecordId = ''r2'',
                      UpdateDomainRecordRequest.RR = ''@'',
                      UpdateDomainRecordRequest.Type = ''TXT'',
                      UpdateDomainRecordRequest.Value = ''token''\<rparr>],
         now = 2, logs = []\<rparr>)
   \<and> CreateAliDNSRecord Sprintf_format_only (retryOperator Suc) (\<lambda>m. False)
        \<lparr>Client = zone_Client [record_of ''example.com'' ''www'' ''A'' ''r1''] (Inr ())\<rparr>
        ''example.com'' ''token'' origin
     = Some ((''created'', None),
        \<lparr>calls = [CallDescribeDomainRecords
                     \<lparr>DescribeDomainRecordsRequest.DomainName = ''example.com'', PageSize = 500\<rparr>,
                  CallAddDomainRecord
                     \<lparr>AddDomainRecordRequest.DomainName = ''example.com'',
                      AddDomainRecordRequest.RR = ''@'', AddDomainRecordRequest.Type = ''TXT'',
                      AddDomainRecordRequest.Value = ''token''\<rparr>],
         now = 2, logs = []\<rparr>)
   \<and> CreateAliDNSRecord Sprintf_verbs (retryOperator Suc)
        (\<lambda>m. classify [''Forbidden''] m = Permanent)
        \<lparr>Client = zone_Client [record_of ''example.com'' ''www'' ''A'' ''r1'']
                    (Inl (ErrorString ''code: Forbidden.RAM''))\<rparr>
        ''example.com'' ''token'' origin
     = Some (('''', Some (ErrorString
          ''Alidns create dns record. Failed to create verification TXT record: code: Forbidden.RAM'')),
        \<lparr>calls = [CallDescribeDomainRecords
                     \<lparr>DescribeDomainRecordsRequest.DomainName = ''example.com'', PageSize = 500\<rparr>,
                  CallAddDomainRecord
                     \<lparr>AddDomainRecordRequest.DomainName = ''example.com'',
                      AddDomainRecordRequest.RR = ''@'', AddDomainRecordRequest.Type = ''TXT'',
                      AddDomainRecordRequest.Value = ''token''\<rparr>],
         now = 2, logs = [''Alidns Add record Error: code: Forbidden.RAM'']\<rparr>)"
proof -
  let ?describe = "CallDescribeDomainRecords
                     \<lparr>DescribeDomainRecordsRequest.DomainName = ''example.com'', PageSize = 500\<rparr>"
  let ?add = "CallAddDomainRecord
                     \<lparr>AddDomainRecordRequest.DomainName = ''example.com'',
                      AddDomainRecordRequest.RR = ''@'', AddDomainRecordRequest.Type = ''TXT'',
                      AddDomainRecordRequest.Value = ''token''\<rparr>"
  let ?w1 = "\<lparr>calls = [?describe], now = 1, logs = []\<rparr>"
  let ?r1 = "record_of ''example.com'' ''www'' ''A'' ''r1''"
  let ?r2 = "record_of ''example.com'' ''@'' ''TXT'' ''r2''"
  let ?r3 = "record_of ''example.com'' ''@'' ''TXT'' ''r3''"
  let ?P = "\<lambda>m. classify [''Forbidden''] m = Permanent"
  let ?bad = "\<lparr>Client = zone_Client [?r1] (Inl (ErrorString ''code: Forbidden.RAM''))\<rparr>"
  have g: "\<And>zone reply. length zone \<le> 3 \<Longrightarrow>
             GetAllDnsRecords \<lparr>Client = zone_Client zone reply\<rparr> ''example.com'' origin
             = ((zone, None), ?w1)"
    by (simp add: GetAllDnsRecords_def invoke_def zone_Client_def first_page_def origin_def
          Let_def)
  have g0: "GetAllDnsRecords \<lparr>Client = zone_Client [] (Inr ())\<rparr> ''example.com'' origin
             = (([], None), ?w1)"
    by (rule g) simp
  have g3: "GetAllDnsRecords \<lparr>Client = zone_Client [?r1, ?r2, ?r3] (Inr ())\<rparr> ''example.com''
              origin = (([?r1, ?r2, ?r3], None), ?w1)"
    by (rule g) simp
  have g1: "GetAllDnsRecords \<lparr>Client = zone_Client [?r1] (Inr ())\<rparr> ''example.com'' origin
             = (([?r1], None), ?w1)"
    by (rule g) simp
  have gb: "GetAllDnsRecords ?bad ''example.com'' origin = (([?r1], None), ?w1)"
    by (rule g) simp
  have m: "\<not> matches ''example.com'' ?r1" "matches ''example.com'' ?r2"
    by (simp_all add: matches_def record_of_def)
  have u: "retryOperator Suc
             (updateRecord Sprintf_format_only (\<lambda>m. False)
                \<lparr>Client = zone_Client [?r1, ?r2, ?r3] (Inr ())\<rparr> ?r2 ''token'')
             MAX_ELAPSED_TIME ('''', ?w1)
           = Some (None, '''',
               \<lparr>calls = [?describe,
                  CallUpdateDomainRecord
                     \<lparr>UpdateDomainRecordRequest.RecordId = ''r2'',
                      UpdateDomainRecordRequest.RR = ''@'',
                      UpdateDomainRecordRequest.Type = ''TXT'',
                      UpdateDomainRecordRequest.Value = ''token''\<rparr>],
                now = 2, logs = []\<rparr>)"
    by (subst retryOperator_first_attempt)
       (simp_all add: updateRecord_def UpdateDnsRecord_def invoke_def zone_Client_def
          record_of_def)
  have ad: "retryOperator Suc
             (addRecord Sprintf_format_only (\<lambda>m. False)
                \<lparr>Client = zone_Client [?r1] (Inr ())\<rparr> ''example.com'' ''token'')
             MAX_ELAPSED_TIME ('''', ?w1)
           = Some (None, ''created'', \<lparr>calls = [?describe, ?add], now = 2, logs = []\<rparr>)"
    by (subst retryOperator_first_attempt)
       (simp_all add: addRecord_def AddDnsRecord_def invoke_def zone_Client_def)
  have bad: "retryOperator Suc (addRecord Sprintf_verbs ?P ?bad ''example.com'' ''token'')
             MAX_ELAPSED_TIME ('''', ?w1)
           = Some (Some (PermanentError (ErrorString ''code: Forbidden.RAM'')), '''',
               \<lparr>calls = [?describe, ?add], now = 2,
                logs = [''Alidns Add record Error: code: Forbidden.RAM'']\<rparr>)"
    by (subst retryOperator_first_attempt)
       (simp_all add: addRecord_def AddDnsRecord_def invoke_def zone_Client_def
          backoff_Permanent_def)
  have c0: "CreateAliDNSRecord Sprintf_format_only (retryOperator Suc) (\<lambda>m. False)
        \<lparr>Client = zone_Client [] (Inr ())\<rparr> ''example.com'' ''token'' origin
     = Some (('''', Some (ErrorString ''domain name not found in Alidns'')), ?w1)"
    using CreateAliDNSRecord_updates_first_match_or_adds [OF g0, THEN conjunct1]
    by (simp add: Errorf_def Sprintf_format_only_def)
  have "[?r1, ?r2, ?r3] = [?r1] @ ?r2 # [?r3] \<and> (\<forall>x\<in>set [?r1]. \<not> matches ''example.com'' x)
          \<and> matches ''example.com'' ?r2"
    using m by simp
  from CreateAliDNSRecord_updates_first_match_or_adds
         [OF g3, where R = "retryOperator Suc" and Sprintf = Sprintf_format_only
            and P = "\<lambda>m. False" and token = "''token''",
          THEN conjunct2, THEN conjunct1, THEN mp, OF this,
          THEN conjunct1, rule_format, OF u]
  have c3: "CreateAliDNSRecord Sprintf_format_only (retryOperator Suc) (\<lambda>m. False)
        \<lparr>Client = zone_Client [?r1, ?r2, ?r3] (Inr ())\<rparr> ''example.com'' ''token'' origin
     = Some ((''r2'', None),
        \<lparr>calls = [?describe,
                  CallUpdateDomainRecord
                     \<lparr>UpdateDomainRecordRequest.RecordId = ''r2'',
                      UpdateDomainRecordRequest.RR = ''@'',
                      UpdateDomainRecordRequest.Type = ''TXT'',
                      UpdateDomainRecordRequest.Value = ''token''\<rparr>],
         now = 2, logs = []\<rparr>)"
    by (simp add: record_of_def)
  have none: "[?r1] \<noteq> [] \<and> (\<forall>x\<in>set [?r1]. \<not> matches ''example.com'' x)"
    using m by simp
  from CreateAliDNSRecord_updates_first_match_or_adds
         [OF g1, where R = "retryOperator Suc" and Sprintf = Sprintf_format_only
            and P = "\<lambda>m. False" and token = "''token''",
          THEN conjunct2, THEN conjunct2, THEN mp, OF none,
          THEN conjunct1, rule_format, OF ad]
  have c1: "CreateAliDNSRecord Sprintf_format_only (retryOperator Suc) (\<lambda>m. False)
        \<lparr>Client = zone_Client [?r1] (Inr ())\<rparr> ''example.com'' ''token'' origin
     = Some ((''created'', None), \<lparr>calls = [?describe, ?add], now = 2, logs = []\<rparr>)" .
  from CreateAliDNSRecord_updates_first_match_or_adds
         [OF gb, where R = "retryOperator Suc" and Sprintf = Sprintf_verbs
            and P = ?P and token = "''token''",
          THEN conjunct2, THEN conjunct2, THEN mp, OF none,
          THEN conjunct2, THEN conjunct1, rule_format, OF bad]
  have cb: "CreateAliDNSRecord Sprintf_verbs (retryOperator Suc) ?P ?bad
              ''example.com'' ''token'' origin
     = Some (('''', Some (ErrorString
          ''Alidns create dns record. Failed to create verification TXT record: code: Forbidden.RAM'')),
        \<lparr>calls = [?describe, ?add], now = 2,
         logs = [''Alidns Add record Error: code: Forbidden.RAM'']\<rparr>)"
    by (simp add: Errorf_def)
  from g0 c0 c3 c1 cb show ?thesis by blast
qed

text \<open>
  The claim as worded promises the id of the matching record whenever the listing
  succeeds. With one matching record and a service that refuses the update with a
  permanent error, the function returns the empty id and an error.
\<close>

theorem CreateAliDNSRecord_returns_no_id_when_retry_fails:
  "GetAllDnsRecords
     \<lparr>Client = zone_Client [record_of ''example.com'' ''@'' ''TXT'' ''r2'']
                 (Inl (ErrorString ''code: Forbidden.RAM''))\<rparr>
     ''example.com'' origin
     = (([record_of ''example.com'' ''@'' ''TXT'' ''r2''], None),
        \<lparr>calls = [CallDescribeDomainRecords
                     \<lparr>DescribeDomainRecordsRequest.DomainName = ''example.com'', PageSize = 500\<rparr>],
         now = 1, logs = []\<rparr>)
   \<and> matches ''example.com'' (record_of ''example.com'' ''@'' ''TXT'' ''r2'')
   \<and> DescribeDomainRecordsResponseBodyDomainRecordsRecord.RecordId
        (record_of ''example.com'' ''@'' ''TXT'' ''r2'') = ''r2''
   \<and> CreateAliDNSRecord Sprintf_verbs (retryOperator Suc)
        permanent_if_forbidden
        \<lparr>Client = zone_Client [record_of ''example.com'' ''@'' ''TXT'' ''r2'']
                    (Inl (ErrorString ''code: Forbidden.RAM''))\<rparr>
        ''example.com'' ''token'' origin
     = Some (('''', Some (ErrorString
          ''Alidns update dns record. Failed to Update verification TXT record: code: Forbidden.RAM'')),
        \<lparr>calls = [CallDescribeDomainRecords
                     \<lparr>DescribeDomainRecordsRequest.DomainName = ''example.com'', PageSize = 500\<rparr>,
                  CallUpdateDomainRecord
                     \<lparr>UpdateDomainRecordRequest.RecordId = ''r2'',
                      UpdateDomainRecordRequest.RR = ''@'',
                      UpdateDomainRecordRequest.Type = ''TXT'',
                      UpdateDomainRecordRequest.Value = ''token''\<rparr>],
         now = 2, logs = [''Alidns update record Error: code: Forbidden.RAM'']\<rparr>)
   \<and> fst (fst (the (CreateAliDNSRecord Sprintf_verbs (retryOperator Suc)
        permanent_if_forbidden
        \<lparr>Client = zone_Client [record_of ''example.com'' ''@'' ''TXT'' ''r2'']
                    (Inl (ErrorString ''code: Forbidden.RAM''))\<rparr>
        ''example.com'' ''token'' origin)))
      \<noteq> DescribeDomainRecordsResponseBodyDomainRecordsRecord.RecordId
           (record_of ''example.com'' ''@'' ''TXT'' ''r2'')"
proof -
  let ?describe = "CallDescribeDomainRecords
                     \<lparr>DescribeDomainRecordsRequest.DomainName = ''example.com'', PageSize = 500\<rparr>"
  let ?update = "CallUpdateDomainRecord
                     \<lparr>UpdateDomainRecordRequest.RecordId = ''r2'',
                      UpdateDomainRecordRequest.RR = ''@'',
                      UpdateDomainRecordRequest.Type = ''TXT'',
                      UpdateDomainRecordRequest.Value = ''token''\<rparr>"
  let ?w1 = "\<lparr>calls = [?describe], now = 1, logs = []\<rparr>"
  let ?r2 = "record_of ''example.com'' ''@'' ''TXT'' ''r2''"
  let ?P = permanent_if_forbidden
  let ?a = "\<lparr>Client = zone_Client [?r2] (Inl (ErrorString ''code: Forbidden.RAM''))\<rparr>"
  have g: "GetAllDnsRecords ?a ''example.com'' origin = (([?r2], None), ?w1)"
    by (simp add: GetAllDnsRecords_def invoke_def zone_Client_def first_page_def origin_def
          Let_def)
  have m: "matches ''example.com'' ?r2"
    by (simp add: matches_def record_of_def)
  have i: "DescribeDomainRecordsResponseBodyDomainRecordsRecord.RecordId ?r2 = ''r2''"
    by (simp add: record_of_def)
  have f: "foundDnsRecord ''example.com'' [?r2] = Some ?r2"
    by (simp add: record_of_def)
  have r: "retryOperator Suc (updateRecord Sprintf_verbs ?P ?a ?r2 ''token'')
             MAX_ELAPSED_TIME ('''', ?w1)
           = Some (Some (PermanentError (ErrorString ''code: Forbidden.RAM'')), '''',
               \<lparr>calls = [?describe, ?update], now = 2,
                logs = [''Alidns update record Error: code: Forbidden.RAM'']\<rparr>)"
    by (subst retryOperator_first_attempt)
       (simp_all add: updateRecord_def UpdateDnsRecord_def invoke_def zone_Client_def
          record_of_def backoff_Permanent_def permanent_if_forbidden_def)
  have c: "CreateAliDNSRecord Sprintf_verbs (retryOperator Suc) ?P ?a
             ''example.com'' ''token'' origin
     = Some (('''', Some (ErrorString
          ''Alidns update dns record. Failed to Update verification TXT record: code: Forbidden.RAM'')),
        \<lparr>calls = [?describe, ?update], now = 2,
         logs = [''Alidns update record Error: code: Forbidden.RAM'']\<rparr>)"
    unfolding CreateAliDNSRecord_update [OF g f] r
    by (simp add: Errorf_def)
  have n: "fst (fst (the (CreateAliDNSRecord Sprintf_verbs (retryOperator Suc) ?P ?a
             ''example.com'' ''token'' origin)))
      \<noteq> DescribeDomainRecordsResponseBodyDomainRecordsRecord.RecordId ?r2"
    unfolding c i by simp
  from g m i c n show ?thesis by blast
qed

text \<open>
  C4. Each of the three closures handed to the Retry Operator (delete, add, update)
  makes one request. When the request succeeds the closure returns nil. When it fails
  with \<open>err\<close>, the closure gives the message of \<open>err\<close> to the classifier and returns
  \<open>err\<close> tagged Permanent exactly when the classifier says so; otherwise it returns
  \<open>err\<close> as it is.
\<close>

theorem retry_closures_classify_errors:
  "(fst (deleteDnsRecord P a dreq (v, w)) = None
      \<longleftrightarrow> (\<exists>u. fst (DeleteDomainRecord (Client a) w dreq) = Inr u))
   \<and> (\<forall>err. fst (DeleteDomainRecord (Client a) w dreq) = Inl err \<longrightarrow>
        (fst (deleteDnsRecord P a dreq (v, w)) = Some (PermanentError err)
           \<longleftrightarrow> P (error_Error err))
        \<and> (\<not> P (error_Error err) \<longrightarrow> fst (deleteDnsRecord P a dreq (v, w)) = Some err))
   \<and> calls (snd (snd (deleteDnsRecord P a dreq (v, w)))) = calls w @ [CallDeleteDomainRecord dreq]
   \<and> (let areq = \<lparr>AddDomainRecordRequest.DomainName = commonName,
                    AddDomainRecordRequest.RR = ''@'', AddDomainRecordRequest.Type = ''TXT'',
                    AddDomainRecordRequest.Value = token\<rparr>
      in (fst (addRecord Sprintf P a commonName token (recordId, w)) = None
            \<longleftrightarrow> (\<exists>u. fst (AddDomainRecord (Client a) w areq) = Inr u))
         \<and> (\<forall>err. fst (AddDomainRecord (Client a) w areq) = Inl err \<longrightarrow>
              (fst (addRecord Sprintf P a commonName token (recordId, w))
                 = Some (PermanentError err) \<longleftrightarrow> P (error_Error err))
              \<and> (\<not> P (error_Error err) \<longrightarrow>
                   fst (addRecord Sprintf P a commonName token (recordId, w)) = Some err))
         \<and> calls (snd (snd (addRecord Sprintf P a commonName token (recordId, w))))
             = calls w @ [CallAddDomainRecord areq])
   \<and> (let ureq = \<lparr>UpdateDomainRecordRequest.RecordId =
                      DescribeDomainRecordsResponseBodyDomainRecordsRecord.RecordId found,
                    UpdateDomainRecordRequest.RR =
                      DescribeDomainRecordsResponseBodyDomainRecordsRecord.RR found,
                    UpdateDomainRecordRequest.Type =
                      DescribeDomainRecordsResponseBodyDomainRecordsRecord.Type found,
                    UpdateDomainRecordRequest.Value = token\<rparr>
      in (fst (updateRecord Sprintf P a found token (v', w)) = None
            \<longleftrightarrow> (\<exists>u. fst (UpdateDomainRecord (Client a) w ureq) = Inr u))
         \<and> (\<forall>err. fst (UpdateDomainRecord (Client a) w ureq) = Inl err \<longrightarrow>
              (fst (updateRecord Sprintf P a found token (v', w))
                 = Some (PermanentError err) \<longleftrightarrow> P (error_Error err))
              \<and> (\<not> P (error_Error err) \<longrightarrow>
                   fst (updateRecord Sprintf P a found token (v', w)) = Some err))
         \<and> calls (snd (snd (updateRecord Sprintf P a found token (v', w))))
             = calls w @ [CallUpdateDomainRecord ureq])"
proof -
  have d: "(fst (deleteDnsRecord P a dreq (v, w)) = None
      \<longleftrightarrow> (\<exists>u. fst (DeleteDomainRecord (Client a) w dreq) = Inr u))
   \<and> (\<forall>err. fst (DeleteDomainRecord (Client a) w dreq) = Inl err \<longrightarrow>
        (fst (deleteDnsRecord P a dreq (v, w)) = Some (PermanentError err)
           \<longleftrightarrow> P (error_Error err))
        \<and> (\<not> P (error_Error err) \<longrightarrow> fst (deleteDnsRecord P a dreq (v, w)) = Some err))"
    unfolding deleteDnsRecord_result
    by (cases "fst (DeleteDomainRecord (Client a) w dreq)") (auto simp: PermanentError_neq)
  have ad: "\<And>areq. areq = \<lparr>AddDomainRecordRequest.DomainName = commonName,
                    AddDomainRecordRequest.RR = ''@'', AddDomainRecordRequest.Type = ''TXT'',
                    AddDomainRecordRequest.Value = token\<rparr> \<Longrightarrow>
     (fst (addRecord Sprintf P a commonName token (recordId, w)) = None
            \<longleftrightarrow> (\<exists>u. fst (AddDomainRecord (Client a) w areq) = Inr u))
         \<and> (\<forall>err. fst (AddDomainRecord (Client a) w areq) = Inl err \<longrightarrow>
              (fst (addRecord Sprintf P a commonName token (recordId, w))
                 = Some (PermanentError err) \<longleftrightarrow> P (error_Error err))
              \<and> (\<not> P (error_Error err) \<longrightarrow>
                   fst (addRecord Sprintf P a commonName token (recordId, w)) = Some err))"
    subgoal for areq
      unfolding addRecord_result
      by (cases "fst (AddDomainRecord (Client a) w areq)") (auto simp: PermanentError_neq)
    done
  have up: "\<And>ureq. ureq = \<lparr>UpdateDomainRecordRequest.RecordId =
                      DescribeDomainRecordsResponseBodyDomainRecordsRecord.RecordId found,
                    UpdateDomainRecordRequest.RR =
                      DescribeDomainRecordsResponseBodyDomainRecordsRecord.RR found,
                    UpdateDomainRecordRequest.Type =
                      DescribeDomainRecordsResponseBodyDomainRecordsRecord.Type found,
                    UpdateDomainRecordRequest.Value = token\<rparr> \<Longrightarrow>
      (fst (updateRecord Sprintf P a found token (v', w)) = None
            \<longleftrightarrow> (\<exists>u. fst (UpdateDomainRecord (Client a) w ureq) = Inr u))
         \<and> (\<forall>err. fst (UpdateDomainRecord (Client a) w ureq) = Inl err \<longrightarrow>
              (fst (updateRecord Sprintf P a found token (v', w))
                 = Some (PermanentError err) \<longleftrightarrow> P (error_Error err))
              \<and> (\<not> P (error_Error err) \<longrightarrow>
                   fst (updateRecord Sprintf P a found token (v', w)) = Some err))"
    subgoal for ureq
      unfolding updateRecord_result
      by (cases "fst (UpdateDomainRecord (Client a) w ureq)") (auto simp: PermanentError_neq)
    done
  show ?thesis
    unfolding Let_def
    using d ad[OF refl] up[OF refl] calls_deleteDnsRecord[of P a dreq v w]
      calls_addRecord[of Sprintf P a commonName token recordId w]
      calls_updateRecord[of Sprintf P a found token v' w]
    by blast
qed

theorem retry_closures_classify_errors_witness:
  "fst (DeleteDomainRecord
         (Client \<lparr>Client = zone_Client [] (Inl (ErrorString ''code: Forbidden.RAM''))\<rparr>)
         origin \<lparr>DeleteDomainRecordRequest.RecordId = ''r1''\<rparr>)
     = Inl (ErrorString ''code: Forbidden.RAM'')
   \<and> classify [''Forbidden''] (error_Error (ErrorString ''code: Forbidden.RAM'')) = Permanent
   \<and> fst (deleteDnsRecord (\<lambda>m. classify [''Forbidden''] m = Permanent)
            \<lparr>Client = zone_Client [] (Inl (ErrorString ''code: Forbidden.RAM''))\<rparr>
            \<lparr>DeleteDomainRecordRequest.RecordId = ''r1''\<rparr> ((), origin))
     = Some (PermanentError (ErrorString ''code: Forbidden.RAM''))
   \<and> fst (DeleteDomainRecord
         (Client \<lparr>Client = zone_Client [] (Inl (ErrorString ''ServiceUnavailable''))\<rparr>)
         origin \<lparr>DeleteDomainRecordRequest.RecordId = ''r1''\<rparr>)
     = Inl (ErrorString ''ServiceUnavailable'')
   \<and> classify [''Forbidden''] (error_Error (ErrorString ''ServiceUnavailable'')) \<noteq> Permanent
   \<and> fst (deleteDnsRecord (\<lambda>m. classify [''Forbidden''] m = Permanent)
            \<lparr>Client = zone_Client [] (Inl (ErrorString ''ServiceUnavailable''))\<rparr>
            \<lparr>DeleteDomainRecordRequest.RecordId = ''r1''\<rparr> ((), origin))
     = Some (ErrorString ''ServiceUnavailable'')
   \<and> fst (deleteDnsRecord (\<lambda>m. classify [''Forbidden''] m = Permanent)
            \<lparr>Client = zone_Client [] (Inr ())\<rparr>
            \<lparr>DeleteDomainRecordRequest.RecordId = ''r1''\<rparr> ((), origin))
     = None"
proof -
  let ?P = "\<lambda>m. classify [''Forbidden''] m = Permanent"
  let ?req = "\<lparr>DeleteDomainRecordRequest.RecordId = ''r1''\<rparr>"
  have r1: "fst (DeleteDomainRecord
         (Client \<lparr>Client = zone_Client [] (Inl (ErrorString ''code: Forbidden.RAM''))\<rparr>)
         origin ?req) = Inl (ErrorString ''code: Forbidden.RAM'')"
    by (simp add: zone_Client_def)
  have r2: "fst (DeleteDomainRecord
         (Client \<lparr>Client = zone_Client [] (Inl (ErrorString ''ServiceUnavailable''))\<rparr>)
         origin ?req) = Inl (ErrorString ''ServiceUnavailable'')"
    by (simp add: zone_Client_def)
  have r3: "fst (DeleteDomainRecord (Client \<lparr>Client = zone_Client [] (Inr ())\<rparr>) origin ?req)
              = Inr ()"
    by (simp add: zone_Client_def)
  have p1: "classify [''Forbidden''] (error_Error (ErrorString ''code: Forbidden.RAM''))
              = Permanent"
    by simp
  have p2: "classify [''Forbidden''] (error_Error (ErrorString ''ServiceUnavailable''))
              \<noteq> Permanent"
    by simp
  have a: "fst (deleteDnsRecord ?P
            \<lparr>Client = zone_Client [] (Inl (ErrorString ''code: Forbidden.RAM''))\<rparr>
            ?req ((), origin))
     = Some (PermanentError (ErrorString ''code: Forbidden.RAM''))"
    using retry_closures_classify_errors
            [where P = ?P and dreq = ?req and v = "()" and w = origin
               and a = "\<lparr>Client = zone_Client [] (Inl (ErrorString ''code: Forbidden.RAM''))\<rparr>",
             THEN conjunct2, THEN conjunct1]
          r1 p1
    by simp
  have b: "fst (deleteDnsRecord ?P
            \<lparr>Client = zone_Client [] (Inl (ErrorString ''ServiceUnavailable''))\<rparr>
            ?req ((), origin))
     = Some (ErrorString ''ServiceUnavailable'')"
    using retry_closures_classify_errors
            [where P = ?P and dreq = ?req and v = "()" and w = origin
               and a = "\<lparr>Client = zone_Client [] (Inl (ErrorString ''ServiceUnavailable''))\<rparr>",
             THEN conjunct2, THEN conjunct1]
          r2 p2
    by simp
  have c: "fst (deleteDnsRecord ?P \<lparr>Client = zone_Client [] (Inr ())\<rparr> ?req ((), origin))
             = None"
    using retry_closures_classify_errors
            [where P = ?P and dreq = ?req and v = "()" and w = origin
               and a = "\<lparr>Client = zone_Client [] (Inr ())\<rparr>",
             THEN conjunct1]
          r3
    by simp
  from r1 r2 p1 p2 a b c show ?thesis by blast
qed

text \<open>
  C5. Let \<^verbatim>\<open>fmt.Sprintf\<close> render the verb %v of an error operand as Go does. When the
  Retry Operator returns, \<^verbatim>\<open>DeleteDnsRecord\<close> and both retried paths of
  \<^verbatim>\<open>CreateAliDNSRecord\<close> return: nil exactly when the Retry Operator returned nil, and
  otherwise an error whose message is the wrapper's own text followed by the message of
  the error the Retry Operator returned.
\<close>

theorem wrappers_return_the_retry_error:
  assumes fmt: "renders_error_operand Sprintf"
  shows
  "(\<forall>r v w'.
      R (deleteDnsRecord P a \<lparr>DeleteDomainRecordRequest.RecordId = id'\<rparr>)
        MAX_ELAPSED_TIME ((), w) = Some (r, v, w') \<longrightarrow>
      (\<exists>res. DeleteDnsRecord Sprintf R P a id' w = Some (res, w')
         \<and> (res = None \<longleftrightarrow> r = None)
         \<and> (\<forall>err. r = Some err \<longrightarrow>
              res = Some (ErrorString
                (''Alidns delete dns record. Failed to Delete dns record: ''
                   @ error_Error err)))))
   \<and> (\<forall>dnsRecords w1.
        GetAllDnsRecords a commonName w = ((dnsRecords, None), w1) \<and> dnsRecords \<noteq> [] \<longrightarrow>
        (foundDnsRecord commonName dnsRecords = None \<longrightarrow>
           (\<forall>r v w2.
              R' (addRecord Sprintf P a commonName token) MAX_ELAPSED_TIME ('''', w1)
                = Some (r, v, w2) \<longrightarrow>
              (\<exists>recordId res.
                 CreateAliDNSRecord Sprintf R' P a commonName token w
                   = Some ((recordId, res), w2)
                 \<and> (res = None \<longleftrightarrow> r = None)
                 \<and> (\<forall>err. r = Some err \<longrightarrow>
                      res = Some (ErrorString
                        (''Alidns create dns record. Failed to create verification TXT record: ''
                           @ error_Error err))))))
        \<and> (\<forall>found. foundDnsRecord commonName dnsRecords = Some found \<longrightarrow>
           (\<forall>r v w2.
              R' (updateRecord Sprintf P a found token) MAX_ELAPSED_TIME ('''', w1)
                = Some (r, v, w2) \<longrightarrow>
              (\<exists>recordId res.
                 CreateAliDNSRecord Sprintf R' P a commonName token w
                   = Some ((recordId, res), w2)
                 \<and> (res = None \<longleftrightarrow> r = None)
                 \<and> (\<forall>err. r = Some err \<longrightarrow>
                      res = Some (ErrorString
                        (''Alidns update dns record. Failed to Update verification TXT record: ''
                           @ error_Error err)))))))"
proof -
  have del: "\<And>err. Errorf Sprintf ''Alidns delete dns record. Failed to Delete dns record: %v''
               [ArgError err]
             = ErrorString (''Alidns delete dns record. Failed to Delete dns record: ''
                 @ error_Error err)"
    using Errorf_renders
            [OF fmt, of "''Alidns delete dns record. Failed to Delete dns record: ''"]
    by simp
  have cre: "\<And>err. Errorf Sprintf
               ''Alidns create dns record. Failed to create verification TXT record: %v''
               [ArgError err]
             = ErrorString
                 (''Alidns create dns record. Failed to create verification TXT record: ''
                    @ error_Error err)"
    using Errorf_renders
            [OF fmt,
             of "''Alidns create dns record. Failed to create verification TXT record: ''"]
    by simp
  have upd: "\<And>err. Errorf Sprintf
               ''Alidns update dns record. Failed to Update verification TXT record: %v''
               [ArgError err]
             = ErrorString
                 (''Alidns update dns record. Failed to Update verification TXT record: ''
                    @ error_Error err)"
    using Errorf_renders
            [OF fmt,
             of "''Alidns update dns record. Failed to Update verification TXT record: ''"]
    by simp
  show ?thesis
  proof (intro conjI allI impI; (elim conjE)?)
    fix r v w'
    assume "R (deleteDnsRecord P a \<lparr>DeleteDomainRecordRequest.RecordId = id'\<rparr>)
        MAX_ELAPSED_TIME ((), w) = Some (r, v, w')"
    then show "\<exists>res. DeleteDnsRecord Sprintf R P a id' w = Some (res, w')
         \<and> (res = None \<longleftrightarrow> r = None)
         \<and> (\<forall>err. r = Some err \<longrightarrow>
              res = Some (ErrorString
                (''Alidns delete dns record. Failed to Delete dns record: ''
                   @ error_Error err)))"
      by (cases r) (simp_all add: DeleteDnsRecord_def del)
  next
    fix dnsRecords w1 r v w2
    assume "GetAllDnsRecords a commonName w = ((dnsRecords, None), w1)" "dnsRecords \<noteq> []"
      "foundDnsRecord commonName dnsRecords = None"
      "R' (addRecord Sprintf P a commonName token) MAX_ELAPSED_TIME ('''', w1) = Some (r, v, w2)"
    then show "\<exists>recordId res.
                 CreateAliDNSRecord Sprintf R' P a commonName token w
                   = Some ((recordId, res), w2)
                 \<and> (res = None \<longleftrightarrow> r = None)
                 \<and> (\<forall>err. r = Some err \<longrightarrow>
                      res = Some (ErrorString
                        (''Alidns create dns record. Failed to create verification TXT record: ''
                           @ error_Error err)))"
      by (cases r) (simp_all add: CreateAliDNSRecord_add cre)
  next
    fix dnsRecords w1 found r v w2
    assume "GetAllDnsRecords a commonName w = ((dnsRecords, None), w1)" "dnsRecords \<noteq> []"
      "foundDnsRecord commonName dnsRecords = Some found"
      "R' (updateRecord Sprintf P a found token) MAX_ELAPSED_TIME ('''', w1) = Some (r, v, w2)"
    then show "\<exists>recordId res.
                 CreateAliDNSRecord Sprintf R' P a commonName token w
                   = Some ((recordId, res), w2)
                 \<and> (res = None \<longleftrightarrow> r = None)
                 \<and> (\<forall>err. r = Some err \<longrightarrow>
                      res = Some (ErrorString
                        (''Alidns update dns record. Failed to Update verification TXT record: ''
                           @ error_Error err)))"
      by (cases r) (simp_all add: CreateAliDNSRecord_update upd)
  qed
qed

theorem wrappers_return_the_retry_error_witness:
  "renders_error_operand Sprintf_verbs
   \<and> retryOperator Suc
     (deleteDnsRecord (\<lambda>m. classify [''Forbidden''] m = Permanent)
        \<lparr>Client = zone_Client [] (Inl (ErrorString ''code: Forbidden.RAM''))\<rparr>
        \<lparr>DeleteDomainRecordRequest.RecordId = ''r1''\<rparr>)
     MAX_ELAPSED_TIME ((), origin)
   = Some (Some (PermanentError (ErrorString ''code: Forbidden.RAM'')), (),
           \<lparr>calls = [CallDeleteDomainRecord \<lparr>DeleteDomainRecordRequest.RecordId = ''r1''\<rparr>],
            now = 1, logs = []\<rparr>)
   \<and> DeleteDnsRecord Sprintf_verbs (retryOperator Suc)
       (\<lambda>m. classify [''Forbidden''] m = Permanent)
       \<lparr>Client = zone_Client [] (Inl (ErrorString ''code: Forbidden.RAM''))\<rparr> ''r1'' origin
   = Some (Some (ErrorString
             ''Alidns delete dns record. Failed to Delete dns record: code: Forbidden.RAM''),
           \<lparr>calls = [CallDeleteDomainRecord \<lparr>DeleteDomainRecordRequest.RecordId = ''r1''\<rparr>],
            now = 1, logs = []\<rparr>)
   \<and> retryOperator Suc
     (deleteDnsRecord (\<lambda>m. classify [''Forbidden''] m = Permanent)
        \<lparr>Client = zone_Client [] (Inr ())\<rparr>
        \<lparr>DeleteDomainRecordRequest.RecordId = ''r1''\<rparr>)
     MAX_ELAPSED_TIME ((), origin)
   = Some (None, (),
           \<lparr>calls = [CallDeleteDomainRecord \<lparr>DeleteDomainRecordRequest.RecordId = ''r1''\<rparr>],
            now = 1, logs = []\<rparr>)
   \<and> DeleteDnsRecord Sprintf_verbs (retryOperator Suc)
       (\<lambda>m. classify [''Forbidden''] m = Permanent)
       \<lparr>Client = zone_Client [] (Inr ())\<rparr> ''r1'' origin
   = Some (None,
           \<lparr>calls = [CallDeleteDomainRecord \<lparr>DeleteDomainRecordRequest.RecordId = ''r1''\<rparr>],
            now = 1, logs = []\<rparr>)"
proof -
  let ?P = "\<lambda>m. classify [''Forbidden''] m = Permanent"
  let ?req = "\<lparr>DeleteDomainRecordRequest.RecordId = ''r1''\<rparr>"
  let ?w = "\<lparr>calls = [CallDeleteDomainRecord ?req], now = 1, logs = []\<rparr>"
  let ?bad = "\<lparr>Client = zone_Client [] (Inl (ErrorString ''code: Forbidden.RAM''))\<rparr>"
  let ?good = "\<lparr>Client = zone_Client [] (Inr ())\<rparr>"
  note fmt = renders_error_operand_Sprintf_verbs
  have r1: "retryOperator Suc (deleteDnsRecord ?P ?bad ?req) MAX_ELAPSED_TIME ((), origin)
              = Some (Some (PermanentError (ErrorString ''code: Forbidden.RAM'')), (), ?w)"
    by (subst retryOperator_first_attempt)
       (simp_all add: deleteDnsRecord_def invoke_def zone_Client_def origin_def
          backoff_Permanent_def)
  have r2: "retryOperator Suc (deleteDnsRecord ?P ?good ?req) MAX_ELAPSED_TIME ((), origin)
              = Some (None, (), ?w)"
    by (subst retryOperator_first_attempt)
       (simp_all add: deleteDnsRecord_def invoke_def zone_Client_def origin_def)
  have d1: "DeleteDnsRecord Sprintf_verbs (retryOperator Suc) ?P ?bad ''r1'' origin
   = Some (Some (ErrorString
             ''Alidns delete dns record. Failed to Delete dns record: code: Forbidden.RAM''), ?w)"
    using wrappers_return_the_retry_error
            [OF fmt, where R = "retryOperator Suc" and P = ?P and a = ?bad and id' = "''r1''"
               and w = origin,
             THEN conjunct1, rule_format, OF r1]
    by auto
  have d2: "DeleteDnsRecord Sprintf_verbs (retryOperator Suc) ?P ?good ''r1'' origin
   = Some (None, ?w)"
    using wrappers_return_the_retry_error
            [OF fmt, where R = "retryOperator Suc" and P = ?P and a = ?good and id' = "''r1''"
               and w = origin,
             THEN conjunct1, rule_format, OF r2]
    by auto
  from fmt r1 r2 d1 d2 show ?thesis by blast
qed

text \<open>
  C9. \<^verbatim>\<open>GetAllDnsRecords\<close> sends exactly one request, with page size 500. When the
  service answers it with the first page of the zone, the function returns the first 500
  records of the zone: at most 500 records, and no record that occurs only beyond them.
  The search of \<^verbatim>\<open>CreateAliDNSRecord\<close> sees those records only: when none of the first
  500 matches, it takes the path that adds a record, whatever comes after them.
\<close>

theorem GetAllDnsRecords_requests_one_page_of_500:
  "calls (snd (GetAllDnsRecords a domain w))
     = calls w @ [CallDescribeDomainRecords
                    \<lparr>DescribeDomainRecordsRequest.DomainName = domain, PageSize = 500\<rparr>]
   \<and> (fst (DescribeDomainRecords (Client a) w
              \<lparr>DescribeDomainRecordsRequest.DomainName = domain, PageSize = 500\<rparr>)
         = Inr (first_page zone
                  \<lparr>DescribeDomainRecordsRequest.DomainName = domain, PageSize = 500\<rparr>) \<longrightarrow>
        fst (GetAllDnsRecords a domain w) = (take 500 zone, None)
        \<and> length (fst (fst (GetAllDnsRecords a domain w))) \<le> 500
        \<and> (\<forall>i. 500 \<le> i \<and> i < length zone \<and> zone ! i \<notin> set (take 500 zone) \<longrightarrow>
              zone ! i \<notin> set (fst (fst (GetAllDnsRecords a domain w))))
        \<and> (take 500 zone \<noteq> [] \<and> (\<forall>x\<in>set (take 500 zone). \<not> matches domain x) \<longrightarrow>
              CreateAliDNSRecord Sprintf R P a domain token w
              = (case R (addRecord Sprintf P a domain token) MAX_ELAPSED_TIME
                        ('''', snd (GetAllDnsRecords a domain w)) of
                   None \<Rightarrow> None
                 | Some (Some err, _, w2) \<Rightarrow>
                     Some (('''', Some (Errorf Sprintf
                       ''Alidns create dns record. Failed to create verification TXT record: %v''
                       [ArgError err])), w2)
                 | Some (None, recordId, w2) \<Rightarrow> Some ((recordId, None), w2))))"
proof -
  have c: "calls (snd (GetAllDnsRecords a domain w))
     = calls w @ [CallDescribeDomainRecords
                    \<lparr>DescribeDomainRecordsRequest.DomainName = domain, PageSize = 500\<rparr>]"
    by (rule calls_GetAllDnsRecords)
  have p: "fst (GetAllDnsRecords a domain w) = (take 500 zone, None)"
    if "fst (DescribeDomainRecords (Client a) w
              \<lparr>DescribeDomainRecordsRequest.DomainName = domain, PageSize = 500\<rparr>)
         = Inr (first_page zone
                  \<lparr>DescribeDomainRecordsRequest.DomainName = domain, PageSize = 500\<rparr>)"
    using that
    by (cases "DescribeDomainRecords (Client a) w
              \<lparr>DescribeDomainRecordsRequest.DomainName = domain, PageSize = 500\<rparr>")
       (simp add: GetAllDnsRecords_def invoke_def first_page_def Let_def)
  have ad: "CreateAliDNSRecord Sprintf R P a domain token w
              = (case R (addRecord Sprintf P a domain token) MAX_ELAPSED_TIME
                        ('''', snd (GetAllDnsRecords a domain w)) of
                   None \<Rightarrow> None
                 | Some (Some err, _, w2) \<Rightarrow>
                     Some (('''', Some (Errorf Sprintf
                       ''Alidns create dns record. Failed to create verification TXT record: %v''
                       [ArgError err])), w2)
                 | Some (None, recordId, w2) \<Rightarrow> Some ((recordId, None), w2))"
    if g: "fst (GetAllDnsRecords a domain w) = (take 500 zone, None)"
      and ne: "take 500 zone \<noteq> []" and no: "\<forall>x\<in>set (take 500 zone). \<not> matches domain x"
  proof -
    from g have "GetAllDnsRecords a domain w
                   = ((take 500 zone, None), snd (GetAllDnsRecords a domain w))"
      by (cases "GetAllDnsRecords a domain w") simp
    from CreateAliDNSRecord_add [OF this ne foundDnsRecord_none [OF no]]
    show ?thesis .
  qed
  show ?thesis
  proof (intro conjI impI allI; (elim conjE)?)
    show "calls (snd (GetAllDnsRecords a domain w))
     = calls w @ [CallDescribeDomainRecords
                    \<lparr>DescribeDomainRecordsRequest.DomainName = domain, PageSize = 500\<rparr>]"
      by (rule c)
  next
    assume r: "fst (DescribeDomainRecords (Client a) w
              \<lparr>DescribeDomainRecordsRequest.DomainName = domain, PageSize = 500\<rparr>)
         = Inr (first_page zone
                  \<lparr>DescribeDomainRecordsRequest.DomainName = domain, PageSize = 500\<rparr>)"
    show "fst (GetAllDnsRecords a domain w) = (take 500 zone, None)"
      by (rule p [OF r])
    show "length (fst (fst (GetAllDnsRecords a domain w))) \<le> 500"
      by (simp add: p [OF r])
    show "zone ! i \<notin> set (fst (fst (GetAllDnsRecords a domain w)))"
      if "zone ! i \<notin> set (take 500 zone)" for i
      using that by (simp add: p [OF r])
    show "CreateAliDNSRecord Sprintf R P a domain token w
              = (case R (addRecord Sprintf P a domain token) MAX_ELAPSED_TIME
                        ('''', snd (GetAllDnsRecords a domain w)) of
                   None \<Rightarrow> None
                 | Some (Some err, _, w2) \<Rightarrow>
                     Some (('''', Some (Errorf Sprintf
                       ''Alidns create dns record. Failed to create verification TXT record: %v''
                       [ArgError err])), w2)
                 | Some (None, recordId, w2) \<Rightarrow> Some ((recordId, None), w2))"
      if "take 500 zone \<noteq> []" "\<forall>x\<in>set (take 500 zone). \<not> matches domain x"
      by (rule ad [OF p [OF r] that])
  qed
qed

theorem GetAllDnsRecords_requests_one_page_of_500_witness:
  "fst (DescribeDomainRecords
          (Client \<lparr>Client = zone_Client
             (replicate 500 (record_of ''example.com'' ''www'' ''A'' ''r'')
                @ [record_of ''example.com'' ''@'' ''TXT'' ''r501'']) (Inr ())\<rparr>)
          origin \<lparr>DescribeDomainRecordsRequest.DomainName = ''example.com'', PageSize = 500\<rparr>)
     = Inr (first_page
          (replicate 500 (record_of ''example.com'' ''www'' ''A'' ''r'')
             @ [record_of ''example.com'' ''@'' ''TXT'' ''r501''])
          \<lparr>DescribeDomainRecordsRequest.DomainName = ''example.com'', PageSize = 500\<rparr>)
   \<and> matches ''example.com'' (record_of ''example.com'' ''@'' ''TXT'' ''r501'')
   \<and> fst (GetAllDnsRecords
            \<lparr>Client = zone_Client
               (replicate 500 (record_of ''example.com'' ''www'' ''A'' ''r'')
                  @ [record_of ''example.com'' ''@'' ''TXT'' ''r501'']) (Inr ())\<rparr>
            ''example.com'' origin)
     = (replicate 500 (record_of ''example.com'' ''www'' ''A'' ''r''), None)
   \<and> CreateAliDNSRecord Sprintf_format_only (retryOperator Suc) (\<lambda>m. False)
        \<lparr>Client = zone_Client
           (replicate 500 (record_of ''example.com'' ''www'' ''A'' ''r'')
              @ [record_of ''example.com'' ''@'' ''TXT'' ''r501'']) (Inr ())\<rparr>
        ''example.com'' ''token'' origin
     = Some ((''created'', None),
        \<lparr>calls = [CallDescribeDomainRecords
                     \<lparr>DescribeDomainRecordsRequest.DomainName = ''example.com'', PageSize = 500\<rparr>,
                  CallAddDomainRecord
                     \<lparr>AddDomainRecordRequest.DomainName = ''example.com'',
                      AddDomainRecordRequest.RR = ''@'', AddDomainRecordRequest.Type = ''TXT'',
                      AddDomainRecordRequest.Value = ''token''\<rparr>],
         now = 2, logs = []\<rparr>)"
proof -
  let ?other = "record_of ''example.com'' ''www'' ''A'' ''r''"
  let ?late = "record_of ''example.com'' ''@'' ''TXT'' ''r501''"
  let ?zone = "replicate 500 ?other @ [?late]"
  let ?a = "\<lparr>Client = zone_Client ?zone (Inr ())\<rparr>"
  let ?req = "\<lparr>DescribeDomainRecordsRequest.DomainName = ''example.com'', PageSize = 500\<rparr>"
  let ?w1 = "\<lparr>calls = [CallDescribeDomainRecords ?req], now = 1, logs = []\<rparr>"
  have r: "fst (DescribeDomainRecords (Client ?a) origin ?req) = Inr (first_page ?zone ?req)"
    by (simp add: zone_Client_def)
  have m: "matches ''example.com'' ?late" "\<not> matches ''example.com'' ?other"
    by (simp_all add: matches_def record_of_def)
  have t: "take 500 ?zone = replicate 500 ?other"
    by simp
  have ne: "take 500 ?zone \<noteq> []"
    unfolding t by simp
  have no: "\<forall>x\<in>set (take 500 ?zone). \<not> matches ''example.com'' x"
    unfolding t using m(2) by simp
  note T = GetAllDnsRecords_requests_one_page_of_500
             [where a = ?a and domain = "''example.com''" and w = origin and zone = ?zone
                and Sprintf = Sprintf_format_only and R = "retryOperator Suc"
                and P = "\<lambda>m. False" and token = "''token''"]
  from T r have g: "fst (GetAllDnsRecords ?a ''example.com'' origin) = (take 500 ?zone, None)"
    by blast
  have w1: "snd (GetAllDnsRecords ?a ''example.com'' origin) = ?w1"
    by (simp add: GetAllDnsRecords_def invoke_def zone_Client_def origin_def Let_def)
  have ad: "retryOperator Suc
             (addRecord Sprintf_format_only (\<lambda>m. False) ?a ''example.com'' ''token'')
             MAX_ELAPSED_TIME ('''', ?w1)
           = Some (None, ''created'',
               \<lparr>calls = [CallDescribeDomainRecords ?req,
                  CallAddDomainRecord
                     \<lparr>AddDomainRecordRequest.DomainName = ''example.com'',
                      AddDomainRecordRequest.RR = ''@'', AddDomainRecordRequest.Type = ''TXT'',
                      AddDomainRecordRequest.Value = ''token''\<rparr>],
                now = 2, logs = []\<rparr>)"
    by (subst retryOperator_first_attempt)
       (simp_all add: addRecord_def AddDnsRecord_def invoke_def zone_Client_def)
  from T r ne no have
    "CreateAliDNSRecord Sprintf_format_only (retryOperator Suc) (\<lambda>m. False) ?a
       ''example.com'' ''token'' origin
     = (case retryOperator Suc
               (addRecord Sprintf_format_only (\<lambda>m. False) ?a ''example.com'' ''token'')
               MAX_ELAPSED_TIME ('''', snd (GetAllDnsRecords ?a ''example.com'' origin)) of
          None \<Rightarrow> None
        | Some (Some err, _, w2) \<Rightarrow>
            Some (('''', Some (Errorf Sprintf_format_only
              ''Alidns create dns record. Failed to create verification TXT record: %v''
              [ArgError err])), w2)
        | Some (None, recordId, w2) \<Rightarrow> Some ((recordId, None), w2))"
    by blast
  then have c: "CreateAliDNSRecord Sprintf_format_only (retryOperator Suc) (\<lambda>m. False) ?a
       ''example.com'' ''token'' origin
     = Some ((''created'', None),
        \<lparr>calls = [CallDescribeDomainRecords ?req,
                  CallAddDomainRecord
                     \<lparr>AddDomainRecordRequest.DomainName = ''example.com'',
                      AddDomainRecordRequest.RR = ''@'', AddDomainRecordRequest.Type = ''TXT'',
                      AddDomainRecordRequest.Value = ''token''\<rparr>],
         now = 2, logs = []\<rparr>)"
    unfolding w1 ad by simp
  from r m(1) g t c show ?thesis by simp
qed

text \<open>
  C8. With an empty access key or an empty secret key \<^verbatim>\<open>NewClient\<close> returns no
  client and an error, and never calls the SDK's constructor. With both keys non-empty
  it calls the constructor once, with both keys and the endpoint
  alidns.cn-hongkong.aliyuncs.com, and returns an \<^verbatim>\<open>Alidns\<close> holding the client the
  constructor returned, together with the constructor's error.
\<close>

theorem NewClient_requires_both_keys:
  "((accessKey = '''' \<or> secretKey = '''') \<longrightarrow>
      (\<exists>err. NewClient Sprintf alidns_NewClient accessKey secretKey = ((None, Some err), [])))
   \<and> (accessKey \<noteq> '''' \<and> secretKey \<noteq> '''' \<longrightarrow>
      NewClient Sprintf alidns_NewClient accessKey secretKey
      = (let config = \<lparr>AccessKeyId = Some accessKey, AccessKeySecret = Some secretKey,
                        Endpoint = Some ''alidns.cn-hongkong.aliyuncs.com''\<rparr>
         in ((Some \<lparr>Client = fst (alidns_NewClient config)\<rparr>, snd (alidns_NewClient config)),
             [config])))"
  by (auto simp: NewClient_def Let_def split: prod.splits)

theorem NewClient_requires_both_keys_witness:
  "NewClient Sprintf_format_only (\<lambda>config. (Some config, None)) '''' ''secret''
     = ((None, Some (ErrorString ''dns.newClient(): missing access_key'')), [])
   \<and> NewClient Sprintf_format_only (\<lambda>config. (Some config, None)) ''key'' ''''
     = ((None, Some (ErrorString ''dns.newClient(): missing secret_key'')), [])
   \<and> NewClient Sprintf_format_only (\<lambda>config. (Some config, None)) ''key'' ''secret''
     = ((Some \<lparr>Client = Some \<lparr>AccessKeyId = Some ''key'', AccessKeySecret = Some ''secret'',
                                 Endpoint = Some ''alidns.cn-hongkong.aliyuncs.com''\<rparr>\<rparr>, None),
        [\<lparr>AccessKeyId = Some ''key'', AccessKeySecret = Some ''secret'',
          Endpoint = Some ''alidns.cn-hongkong.aliyuncs.com''\<rparr>])"
  using NewClient_requires_both_keys
          [of "''''" "''secret''" Sprintf_format_only "\<lambda>config. (Some config, None)"]
        NewClient_requires_both_keys
          [of "''key''" "''''" Sprintf_format_only "\<lambda>config. (Some config, None)"]
        NewClient_requires_both_keys
          [of "''key''" "''secret''" Sprintf_format_only "\<lambda>config. (Some config, None)"]
  by (simp add: NewClient_def Errorf_def Sprintf_format_only_def Let_def)



section \<open>Package digicertapi: errors in the response\<close>



text \<open>
  C2. On a response that carries a non-empty list of errors, \<^verbatim>\<open>IssueCert\<close> and
  \<^verbatim>\<open>GetOrders\<close> return an error, but \<^verbatim>\<open>GetOrdersList\<close> prints one line, returns the
  decoded list and a nil error, and \<^verbatim>\<open>CancelOrderRequest\<close> returns nil on a
  non-empty response body.
\<close>

theorem GetOrdersList_and_CancelOrderRequest_drop_errors:
  "fst (GetOrdersList Sprintf_format_only (decode_OrderListRespBody [access_denied])
          (answering errors_body))
     = (\<lparr>Orders = [], OrderListRespBody.ErrorMsg = [access_denied]\<rparr>, None)
   \<and> snd (GetOrdersList Sprintf_format_only (decode_OrderListRespBody [access_denied])
          (answering errors_body))
     = [''false'']
   \<and> errors_body \<noteq> []
   \<and> CancelOrderRequest Sprintf_format_only (answering errors_body) 7 = None
   \<and> GetOrders Sprintf_format_only (decode_OrderListRespBody [access_denied])
        (answering errors_body) ''example.com''
     = (zero_OrderListRespBody, Some (ErrorString ''Missing authentication''))
   \<and> (\<forall>orderPayLoad.
        snd (IssueCert Sprintf_format_only (\<lambda>payload. (''{}'', None))
               (decode_IssueCertRespBody [access_denied]) (answering errors_body) orderPayLoad)
        = Some (ErrorString ''error issue certificate, error: %s''))"
proof -
  have ne: "errors_body \<noteq> []"
    by (simp add: errors_body_def)
  have g: "GetOrdersList Sprintf_format_only (decode_OrderListRespBody [access_denied])
          (answering errors_body)
     = ((\<lparr>Orders = [], OrderListRespBody.ErrorMsg = [access_denied]\<rparr>, None), [''false''])"
    by (simp add: GetOrdersList_def answering_def decode_OrderListRespBody_def
          zero_OrderListRespBody_def access_denied_def Let_def)
  have c: "CancelOrderRequest Sprintf_format_only (answering errors_body) 7 = None"
    by (simp add: CancelOrderRequest_def answering_def Let_def)
  have o: "GetOrders Sprintf_format_only (decode_OrderListRespBody [access_denied])
        (answering errors_body) ''example.com''
     = (zero_OrderListRespBody, Some (ErrorString ''Missing authentication''))"
    by (simp add: GetOrders_def answering_def decode_OrderListRespBody_def
          access_denied_def Let_def)
  have i: "\<And>orderPayLoad.
        snd (IssueCert Sprintf_format_only (\<lambda>payload. (''{}'', None))
               (decode_IssueCertRespBody [access_denied]) (answering errors_body) orderPayLoad)
        = Some (ErrorString ''error issue certificate, error: %s'')"
    by (simp add: IssueCert_def answering_def decode_IssueCertRespBody_def
          zero_IssueCertRespBody_def Errorf_def Sprintf_format_only_def Let_def)
  from ne g c o i show ?thesis by simp
qed


end
